theory Spec2Isabelle
  imports Main "HOL-Library.Word"
begin

section \<open>The MCP bridge server of UE5MCPBridge (MCPServer.cpp)\<close>

text \<open>
  This theory embeds the transport, framing and dispatch code of
  \<^verbatim>\<open>FMCPServer\<close> (MCPServer.cpp): \<^verbatim>\<open>Run\<close>, \<^verbatim>\<open>ProcessMessage\<close>,
  \<^verbatim>\<open>HandleInitialize\<close>, \<^verbatim>\<open>HandleToolsList\<close>, \<^verbatim>\<open>HandleToolsCall\<close>,
  \<^verbatim>\<open>CreateSuccessResponse\<close>, \<^verbatim>\<open>CreateErrorResponse\<close> and the first
  statement of every \<^verbatim>\<open>Execute...\<close> function.

  What the server calls in the engine is not part of the repository:
  \<^item> \<^verbatim>\<open>FString\<close>'s \<^verbatim>\<open>operator==\<close> compares two texts ignoring the case of the
    letters A to Z; it is the function \<open>FStringEq\<close>;
  \<^item> the JSON library (\<^verbatim>\<open>FJsonSerializer\<close>, \<^verbatim>\<open>FJsonObject\<close>) is a parameter
    \<open>L\<close>, a record of the accessors the server calls; \<^verbatim>\<open>GetObjectField\<close> always
    returns a valid pointer (the library's empty object when the field is absent);
  \<^item> the editor behind the executors (worlds, actors, assets) and its game thread are a
    parameter \<open>E\<close>: whether the game thread runs a submitted task, and what an executor
    body returns, if it returns;
  \<^item> the socket subsystem: its answers in one loop iteration, and the memory that follows
    the bytes received, are the record \<open>Poll\<close>.
  The theorems about the server are stated for every \<open>L\<close> and \<open>E\<close>. A reference
  library \<open>RefJson\<close> and a sample editor \<open>SampleEditor\<close> run the model on concrete
  wire text.
\<close>

subsection \<open>JSON values\<close>

text \<open>
  The DOM the server builds for its replies. Numbers are integers: the server only ever
  writes \<^verbatim>\<open>int32\<close> ids and error codes.
\<close>

datatype JsonValue =
    FJsonValueNull
  | FJsonValueBoolean bool
  | FJsonValueNumber int
  | FJsonValueString string
  | FJsonValueArray "JsonValue list"
  | FJsonValueObject "(string \<times> JsonValue) list"

type_synonym FJsonObject = "(string \<times> JsonValue) list"

type_synonym int32 = "32 word"

subsection \<open>FString comparison\<close>

text \<open>
  \<^verbatim>\<open>A == TEXT("...")\<close> on an \<^verbatim>\<open>FString\<close> is the engine's \<^verbatim>\<open>Stricmp\<close>: the
  letters A to Z are compared as a to z, every other character as it is.
\<close>

definition ToLower :: "char \<Rightarrow> char" where
  "ToLower c =
     (let n = (of_char c :: nat) in if 65 \<le> n \<and> n \<le> 90 then char_of (n + 32) else c)"

definition FStringEq :: "string \<Rightarrow> string \<Rightarrow> bool" where
  "FStringEq a b = (map ToLower a = map ToLower b)"

subsection \<open>The JSON library as a parameter\<close>

text \<open>
  \<open>'obj\<close> is a parsed \<^verbatim>\<open>FJsonObject\<close>; a \<^verbatim>\<open>TSharedPtr<FJsonObject>\<close> is an
  \<open>'obj option\<close>, \<open>None\<close> being the pointer for which \<^verbatim>\<open>IsValid()\<close> is false.
  \<^item> \<open>Deserialize\<close>: \<^verbatim>\<open>FJsonSerializer::Deserialize(Reader, JsonObject)\<close> together
    with the test \<^verbatim>\<open>JsonObject.IsValid()\<close>; \<open>None\<close> when either fails.
  \<^item> \<open>TryGetStringField\<close>, \<open>TryGetNumberField\<close>: \<open>None\<close> when the call returns
    false (the out parameter is then left as it was).
  \<^item> \<open>GetObjectField\<close>: the object behind the pointer returned. The engine returns a
    valid pointer in every case, to its shared empty object when the field is absent or is
    no object; so the result is an object and the caller's pointer is \<open>Some\<close> of it.
  \<^item> \<open>GetStringField\<close>: the string returned. \<open>HasField\<close>: the boolean returned.
\<close>

record 'obj JsonLibrary =
  Deserialize :: "string \<Rightarrow> 'obj option"
  TryGetStringField :: "'obj \<Rightarrow> string \<Rightarrow> string option"
  TryGetNumberField :: "'obj \<Rightarrow> string \<Rightarrow> int32 option"
  GetObjectField :: "'obj \<Rightarrow> string \<Rightarrow> 'obj"
  GetStringField :: "'obj \<Rightarrow> string \<Rightarrow> string"
  HasField :: "'obj \<Rightarrow> string \<Rightarrow> bool"

subsection \<open>A reference JSON library\<close>

text \<open>
  A small reader for JSON text (objects, arrays, strings without escapes, integers,
  \<^verbatim>\<open>true\<close>, \<^verbatim>\<open>false\<close>, \<^verbatim>\<open>null\<close>) and accessors in which an absent or
  ill-typed field gives false, the empty object or the empty string. It stands in for the
  engine's library when the model is run on concrete text with lower-case field names and
  integer ids; no theorem about the server assumes it.
\<close>

definition is_ws :: "char \<Rightarrow> bool" where
  "is_ws c = (c = CHR '' '' \<or> c = CHR 0x09 \<or> c = CHR 0x0A \<or> c = CHR 0x0D)"

definition is_digit :: "char \<Rightarrow> bool" where
  "is_digit c = (let n = (of_char c :: nat) in 48 \<le> n \<and> n \<le> 57)"

definition digits_value :: "string \<Rightarrow> nat" where
  "digits_value ds = foldl (\<lambda>n c. 10 * n + (of_char c - 48)) 0 ds"

fun read_string :: "string \<Rightarrow> (string \<times> string) option" where
  "read_string [] = None"
| "read_string (c # cs) =
     (if c = CHR ''\"'' then Some ([], cs)
      else if c = CHR 0x5C then None
      else (case read_string cs of
              None \<Rightarrow> None
            | Some (s, rest) \<Rightarrow> Some (c # s, rest)))"

definition read_number :: "string \<Rightarrow> (JsonValue \<times> string) option" where
  "read_number s =
     (let neg = (take 1 s = ''-'');
          t = (if neg then drop 1 s else s);
          ds = takeWhile is_digit t
      in if ds = [] then None
         else Some (FJsonValueNumber ((if neg then - 1 else 1) * int (digits_value ds)),
                    dropWhile is_digit t))"

fun read_value :: "nat \<Rightarrow> string \<Rightarrow> (JsonValue \<times> string) option"
and read_members :: "nat \<Rightarrow> string \<Rightarrow> (FJsonObject \<times> string) option"
and read_elements :: "nat \<Rightarrow> string \<Rightarrow> (JsonValue list \<times> string) option"
where
  "read_value 0 s = None"
| "read_value (Suc k) s =
     (case dropWhile is_ws s of
        [] \<Rightarrow> None
      | c # cs \<Rightarrow>
          if c = CHR ''{'' then
            (if take 1 (dropWhile is_ws cs) = ''}''
             then Some (FJsonValueObject [], drop 1 (dropWhile is_ws cs))
             else (case read_members k cs of
                     None \<Rightarrow> None
                   | Some (ms, rest) \<Rightarrow> Some (FJsonValueObject ms, rest)))
          else if c = CHR ''['' then
            (if take 1 (dropWhile is_ws cs) = '']''
             then Some (FJsonValueArray [], drop 1 (dropWhile is_ws cs))
             else (case read_elements k cs of
                     None \<Rightarrow> None
                   | Some (vs, rest) \<Rightarrow> Some (FJsonValueArray vs, rest)))
          else if c = CHR ''\"'' then
            (case read_string cs of
               None \<Rightarrow> None
             | Some (str, rest) \<Rightarrow> Some (FJsonValueString str, rest))
          else if take 4 (c # cs) = ''true'' then Some (FJsonValueBoolean True, drop 4 (c # cs))
          else if take 5 (c # cs) = ''false'' then Some (FJsonValueBoolean False, drop 5 (c # cs))
          else if take 4 (c # cs) = ''null'' then Some (FJsonValueNull, drop 4 (c # cs))
          else read_number (c # cs))"
| "read_members 0 s = None"
| "read_members (Suc k) s =
     (case dropWhile is_ws s of
        [] \<Rightarrow> None
      | c # cs \<Rightarrow>
          if c \<noteq> CHR ''\"'' then None
          else (case read_string cs of
                  None \<Rightarrow> None
                | Some (key, r1) \<Rightarrow>
                    (case dropWhile is_ws r1 of
                       [] \<Rightarrow> None
                     | d # r2 \<Rightarrow>
                         if d \<noteq> CHR '':'' then None
                         else (case read_value k r2 of
                                 None \<Rightarrow> None
                               | Some (v, r3) \<Rightarrow>
                                   (case dropWhile is_ws r3 of
                                      [] \<Rightarrow> None
                                    | e # r4 \<Rightarrow>
                                        if e = CHR ''}'' then Some ([(key, v)], r4)
                                        else if e = CHR '','' then
                                          (case read_members k r4 of
                                             None \<Rightarrow> None
                                           | Some (ms, r5) \<Rightarrow> Some ((key, v) # ms, r5))
                                        else None)))))"
| "read_elements 0 s = None"
| "read_elements (Suc k) s =
     (case read_value k s of
        None \<Rightarrow> None
      | Some (v, r1) \<Rightarrow>
          (case dropWhile is_ws r1 of
             [] \<Rightarrow> None
           | e # r2 \<Rightarrow>
               if e = CHR '']'' then Some ([v], r2)
               else if e = CHR '','' then
                 (case read_elements k r2 of
                    None \<Rightarrow> None
                  | Some (vs, r3) \<Rightarrow> Some (v # vs, r3))
               else None))"

definition RefDeserialize :: "string \<Rightarrow> FJsonObject option" where
  "RefDeserialize s =
     (case read_value (Suc (length s)) s of
        Some (FJsonValueObject ms, rest) \<Rightarrow>
          if dropWhile is_ws rest = [] then Some ms else None
      | _ \<Rightarrow> None)"

text \<open>A later field of the same name replaces an earlier one.\<close>

definition FindField :: "FJsonObject \<Rightarrow> string \<Rightarrow> JsonValue option" where
  "FindField obj name = map_of (rev obj) name"

definition INT32_MIN :: int where "INT32_MIN = - 2147483648"
definition INT32_MAX :: int where "INT32_MAX = 2147483647"

definition RefTryGetStringField :: "FJsonObject \<Rightarrow> string \<Rightarrow> string option" where
  "RefTryGetStringField obj name =
     (case FindField obj name of Some (FJsonValueString s) \<Rightarrow> Some s | _ \<Rightarrow> None)"

definition RefTryGetNumberField :: "FJsonObject \<Rightarrow> string \<Rightarrow> int32 option" where
  "RefTryGetNumberField obj name =
     (case FindField obj name of
        Some (FJsonValueNumber n) \<Rightarrow>
          if INT32_MIN \<le> n \<and> n \<le> INT32_MAX then Some (word_of_int n) else None
      | _ \<Rightarrow> None)"

definition RefGetObjectField :: "FJsonObject \<Rightarrow> string \<Rightarrow> FJsonObject" where
  "RefGetObjectField obj name =
     (case FindField obj name of Some (FJsonValueObject ms) \<Rightarrow> ms | _ \<Rightarrow> [])"

definition RefGetStringField :: "FJsonObject \<Rightarrow> string \<Rightarrow> string" where
  "RefGetStringField obj name =
     (case FindField obj name of Some (FJsonValueString s) \<Rightarrow> s | _ \<Rightarrow> [])"

definition RefHasField :: "FJsonObject \<Rightarrow> string \<Rightarrow> bool" where
  "RefHasField obj name = (FindField obj name \<noteq> None)"

definition RefJson :: "FJsonObject JsonLibrary" where
  "RefJson = \<lparr> Deserialize = RefDeserialize,
               TryGetStringField = RefTryGetStringField,
               TryGetNumberField = RefTryGetNumberField,
               GetObjectField = RefGetObjectField,
               GetStringField = RefGetStringField,
               HasField = RefHasField \<rparr>"

subsection \<open>Response helpers\<close>

text \<open>
  \<^verbatim>\<open>CreateSuccessResponse\<close> and \<^verbatim>\<open>CreateErrorResponse\<close> build an object and
  return its condensed serialisation. The model returns the object built; the
  serialisation of an object is never the empty string.
\<close>

definition CreateSuccessResponse :: "int32 \<Rightarrow> FJsonObject \<Rightarrow> FJsonObject" where
  "CreateSuccessResponse ReqId Result =
     [(''jsonrpc'', FJsonValueString ''2.0''),
      (''id'', FJsonValueNumber (sint ReqId)),
      (''result'', FJsonValueObject Result)]"

definition CreateErrorResponse :: "int32 \<Rightarrow> int32 \<Rightarrow> string \<Rightarrow> FJsonObject" where
  "CreateErrorResponse ReqId Code Message =
     [(''jsonrpc'', FJsonValueString ''2.0''),
      (''id'', FJsonValueNumber (sint ReqId)),
      (''error'', FJsonValueObject
         [(''code'', FJsonValueNumber (sint Code)),
          (''message'', FJsonValueString Message)])]"

text \<open>
  The \<^verbatim>\<open>FString\<close> that \<^verbatim>\<open>ProcessMessage\<close> returns: \<open>Nothing\<close> is
  \<^verbatim>\<open>TEXT("")\<close>, \<open>Envelope r\<close> the serialisation of \<open>r\<close>.
\<close>

datatype Wire = Nothing | Envelope FJsonObject

text \<open>Reading a reply: its id, its error code, and whether it is a success.\<close>

definition response_id :: "FJsonObject \<Rightarrow> int option" where
  "response_id r = (case map_of r ''id'' of Some (FJsonValueNumber n) \<Rightarrow> Some n | _ \<Rightarrow> None)"

definition error_code :: "FJsonObject \<Rightarrow> int option" where
  "error_code r =
     (case map_of r ''error'' of
        Some (FJsonValueObject e) \<Rightarrow>
          (case map_of e ''code'' of Some (FJsonValueNumber n) \<Rightarrow> Some n | _ \<Rightarrow> None)
      | _ \<Rightarrow> None)"

definition is_success :: "FJsonObject \<Rightarrow> bool" where
  "is_success r = (map_of r ''result'' \<noteq> None \<and> map_of r ''error'' = None)"

subsection \<open>initialize and tools/list\<close>

definition ProtocolVersion :: string where
  "ProtocolVersion = ''2024-11-05''"

definition HandleInitialize :: "int32 \<Rightarrow> FJsonObject" where
  "HandleInitialize ReqId =
     CreateSuccessResponse ReqId
       [(''protocolVersion'', FJsonValueString ProtocolVersion),
        (''capabilities'', FJsonValueObject [(''tools'', FJsonValueObject [])]),
        (''serverInfo'', FJsonValueObject
           [(''name'', FJsonValueString ''ue5-mcp-bridge''),
            (''version'', FJsonValueString ''3.2.0'')])]"

text \<open>
  Each \<^verbatim>\<open>Register...Tools\<close> function appends one object per tool to the array. The
  model keeps the \<^verbatim>\<open>name\<close> field of each object, in the order of the
  \<^verbatim>\<open>Tools.Add\<close> calls; \<^verbatim>\<open>description\<close> and \<^verbatim>\<open>inputSchema\<close> are left out.
\<close>

definition RegisterActorTools :: "string list" where
  "RegisterActorTools =
     [''get_actor_list'', ''spawn_actor'', ''delete_actor'', ''get_actor_properties'',
      ''set_actor_property'', ''find_actors_by_class'', ''find_actors_by_tag'',
      ''find_actors_by_name'', ''duplicate_actor'', ''set_actor_visibility'',
      ''snap_actor_to_ground'', ''rename_actor'', ''add_actor_tag'', ''remove_actor_tag'',
      ''get_actor_tags'', ''set_actor_mobility'', ''get_actor_mobility'',
      ''attach_actor_to_actor'', ''detach_actor'']"

definition RegisterSelectionTools :: "string list" where
  "RegisterSelectionTools =
     [''select_actors'', ''get_selected_actors'', ''clear_selection'', ''focus_on_actor'']"

definition RegisterViewportTools :: "string list" where
  "RegisterViewportTools =
     [''get_viewport_camera'', ''set_viewport_camera'', ''take_screenshot'',
      ''set_view_mode'', ''get_view_mode'', ''pilot_actor'', ''stop_piloting'',
      ''set_viewport_realtime'', ''set_viewport_stats'']"

definition RegisterLevelTools :: "string list" where
  "RegisterLevelTools =
     [''get_current_level'', ''load_level'', ''save_level'']"

definition RegisterPIETools :: "string list" where
  "RegisterPIETools =
     [''start_pie'', ''stop_pie'']"

definition RegisterAssetTools :: "string list" where
  "RegisterAssetTools =
     [''search_assets'', ''get_asset_info'', ''load_asset'', ''duplicate_asset'',
      ''rename_asset'', ''delete_asset'', ''create_folder'', ''get_asset_references'']"

definition RegisterBlueprintTools :: "string list" where
  "RegisterBlueprintTools =
     [''create_blueprint'', ''get_blueprint_info'', ''compile_blueprint'',
      ''spawn_blueprint_actor'', ''add_blueprint_variable'', ''remove_blueprint_variable'',
      ''get_blueprint_variables'', ''get_blueprint_functions'',
      ''set_blueprint_variable_default'']"

definition RegisterMaterialTools :: "string list" where
  "RegisterMaterialTools =
     [''create_material_instance'', ''set_material_scalar'', ''apply_material_to_actor'',
      ''set_material_vector'', ''get_material_parameters'', ''replace_actor_material'',
      ''get_actor_materials'']"

definition RegisterEditorTools :: "string list" where
  "RegisterEditorTools =
     [''execute_console_command'', ''get_project_info'']"

definition RegisterPhysicsTools :: "string list" where
  "RegisterPhysicsTools =
     [''set_simulate_physics'', ''set_collision_enabled'', ''set_collision_profile'',
      ''add_impulse'', ''get_physics_state'']"

definition RegisterEditorUtilityTools :: "string list" where
  "RegisterEditorUtilityTools =
     [''get_editor_preference'', ''set_editor_preference'', ''run_editor_utility'',
      ''get_engine_info'']"

definition RegisterBookmarkTools :: "string list" where
  "RegisterBookmarkTools =
     [''set_viewport_bookmark'', ''jump_to_bookmark'', ''clear_bookmark'',
      ''list_bookmarks'']"

definition RegisterComponentTools :: "string list" where
  "RegisterComponentTools =
     [''get_actor_components'', ''get_component_properties'', ''set_component_transform'',
      ''set_component_visibility'', ''remove_component'']"

definition RegisterAnimationTools :: "string list" where
  "RegisterAnimationTools =
     [''play_animation'', ''stop_animation'', ''get_animation_list'',
      ''create_level_sequence'', ''add_actor_to_sequence'', ''play_sequence'',
      ''stop_sequence'', ''set_sequence_time'']"

definition RegisterAudioTools :: "string list" where
  "RegisterAudioTools =
     [''play_sound_at_location'', ''spawn_audio_component'', ''set_audio_volume'',
      ''stop_all_sounds'', ''get_audio_components'', ''set_audio_attenuation'']"

definition RegisterLandscapeTools :: "string list" where
  "RegisterLandscapeTools =
     [''get_landscape_info'', ''get_landscape_height'', ''get_foliage_types'',
      ''add_foliage_instance'', ''remove_foliage_in_radius'', ''get_foliage_count'']"

definition ToolEntry :: "string \<Rightarrow> JsonValue" where
  "ToolEntry name = FJsonValueObject [(''name'', FJsonValueString name)]"

definition RegisteredTools :: "string list" where
  "RegisteredTools =
     RegisterActorTools @ RegisterSelectionTools @ RegisterViewportTools @
     RegisterLevelTools @ RegisterPIETools @ RegisterAssetTools @
     RegisterBlueprintTools @ RegisterMaterialTools @ RegisterEditorTools @
     RegisterPhysicsTools @ RegisterEditorUtilityTools @ RegisterBookmarkTools @
     RegisterComponentTools @ RegisterAnimationTools @ RegisterAudioTools @
     RegisterLandscapeTools"

definition HandleToolsList :: "int32 \<Rightarrow> FJsonObject" where
  "HandleToolsList ReqId =
     CreateSuccessResponse ReqId [(''tools'', FJsonValueArray (map ToolEntry RegisteredTools))]"

text \<open>The names a tools/list reply enumerates, read back from the reply.\<close>

fun entry_name :: "JsonValue \<Rightarrow> string option" where
  "entry_name (FJsonValueObject fs) =
     (case map_of fs ''name'' of Some (FJsonValueString n) \<Rightarrow> Some n | _ \<Rightarrow> None)"
| "entry_name _ = None"

definition listed_names :: "FJsonObject \<Rightarrow> string option list" where
  "listed_names r =
     (case map_of r ''result'' of
        Some (FJsonValueObject res) \<Rightarrow>
          (case map_of res ''tools'' of
             Some (FJsonValueArray ts) \<Rightarrow> map entry_name ts
           | _ \<Rightarrow> [])
      | _ \<Rightarrow> [])"

subsection \<open>Executors\<close>

text \<open>
  The editor and its game thread.
  \<^item> \<open>RunsTask E h\<close>: in editor state \<open>h\<close> the game thread runs the task that
    \<^verbatim>\<open>AsyncTask(ENamedThreads::GameThread, ...)\<close> submits. If it never does, the event is
    never triggered and \<^verbatim>\<open>CompletionEvent->Wait()\<close>, which has no timeout, never returns.
  \<^item> \<open>Body E tool Args h = Some (text, h')\<close>: the body of the executor of \<open>tool\<close>, once
    past its argument check, returns \<open>text\<close> and leaves the editor in \<open>h'\<close>;
    \<open>None\<close> when the body does not return. An executor that takes no \<^verbatim>\<open>Args\<close> is
    given \<open>None\<close> as its arguments.
\<close>

record ('obj, 'h) Editor =
  RunsTask :: "'h \<Rightarrow> bool"
  Body :: "string \<Rightarrow> 'obj option \<Rightarrow> 'h \<Rightarrow> (string \<times> 'h) option"

text \<open>
  Why a call produces no reply: \<^verbatim>\<open>operator->\<close> on an invalid \<^verbatim>\<open>TSharedPtr\<close>, or a
  game-thread task that never completes.
\<close>

datatype Fault = NullDereference | NoCompletion

definition Returned :: "(string \<times> 'h) option \<Rightarrow> Fault + (string \<times> 'h)" where
  "Returned r = (case r of None \<Rightarrow> Inl NoCompletion | Some th \<Rightarrow> Inr th)"

text \<open>
  How an executor begins.
  \<^item> \<open>NoArgs\<close>: it has no parameter (\<^verbatim>\<open>ExecuteGetActorList()\<close>).
  \<^item> \<open>Guarded\<close>: its first statement is
    \<^verbatim>\<open>if (!Args.IsValid()) return TEXT("Error: Invalid arguments");\<close>
    (\<^verbatim>\<open>ExecuteSpawnActor\<close>, \<^verbatim>\<open>ExecuteDeleteActor\<close>, ...).
  \<^item> \<open>Unguarded\<close>: its first statement calls \<^verbatim>\<open>Args->...\<close> with no test
    (\<^verbatim>\<open>ExecuteSetSimulatePhysics\<close>, \<^verbatim>\<open>ExecuteAddImpulse\<close>, ...).
  \<^item> \<open>TakeScreenshot\<close>: reads \<^verbatim>\<open>Args\<close> only behind \<^verbatim>\<open>Args.IsValid() &&\<close>
    (so does its replacement in MCPServer_screenshot_fix.cpp).
  \<^item> \<open>SaveLevel\<close>: never reads \<^verbatim>\<open>Args\<close>.
  \<^item> \<open>StartPIE\<close>: takes \<^verbatim>\<open>mode\<close> from \<^verbatim>\<open>Args\<close> behind
    \<^verbatim>\<open>Args.IsValid() && Args->HasField(TEXT("mode"))\<close>, else \<^verbatim>\<open>"viewport"\<close>, and
    returns \<^verbatim>\<open>"Started Play In Editor (%s mode)"\<close>.
\<close>

datatype Executor = NoArgs | Guarded | Unguarded | TakeScreenshot | SaveLevel | StartPIE

fun Execute ::
  "'obj JsonLibrary \<Rightarrow> ('obj, 'h) Editor \<Rightarrow> Executor \<Rightarrow> string \<Rightarrow> 'obj option \<Rightarrow> 'h
     \<Rightarrow> Fault + (string \<times> 'h)"
where
  "Execute L E NoArgs tool Args h = Returned (Body E tool None h)"
| "Execute L E Guarded tool Args h =
     (case Args of
        None \<Rightarrow> Inr (''Error: Invalid arguments'', h)
      | Some a \<Rightarrow> Returned (Body E tool (Some a) h))"
| "Execute L E Unguarded tool Args h =
     (case Args of
        None \<Rightarrow> Inl NullDereference
      | Some a \<Rightarrow> Returned (Body E tool (Some a) h))"
| "Execute L E TakeScreenshot tool Args h = Returned (Body E tool Args h)"
| "Execute L E SaveLevel tool Args h = Returned (Body E tool None h)"
| "Execute L E StartPIE tool Args h =
     (let Mode = (case Args of
                    None \<Rightarrow> ''viewport''
                  | Some a \<Rightarrow>
                      if HasField L a ''mode'' then GetStringField L a ''mode''
                      else ''viewport'')
      in case Body E tool Args h of
           None \<Rightarrow> Inl NoCompletion
         | Some (ignored, h') \<Rightarrow> Inr (''Started Play In Editor ('' @ Mode @ '' mode)'', h'))"

subsection \<open>tools/call\<close>

text \<open>
  The \<^verbatim>\<open>if\<close>/\<^verbatim>\<open>else if\<close> chain of \<^verbatim>\<open>HandleToolsCall\<close>, in source order: the
  entry \<open>(n, k)\<close> is the branch \<^verbatim>\<open>ToolName == TEXT(n)\<close>, and \<open>k\<close> tells how the
  executor called there begins. The first branch whose comparison holds runs.
\<close>

definition ToolChain :: "(string \<times> Executor) list" where
  "ToolChain =
     [(''get_actor_list'', NoArgs), (''spawn_actor'', Guarded),
      (''delete_actor'', Guarded), (''get_actor_properties'', Guarded),
      (''set_actor_property'', Guarded), (''find_actors_by_class'', Guarded),
      (''find_actors_by_tag'', Guarded), (''find_actors_by_name'', Guarded),
      (''duplicate_actor'', Guarded), (''set_actor_visibility'', Guarded),
      (''snap_actor_to_ground'', Guarded), (''rename_actor'', Guarded),
      (''add_actor_tag'', Guarded), (''remove_actor_tag'', Guarded),
      (''get_actor_tags'', Guarded), (''set_actor_mobility'', Guarded),
      (''get_actor_mobility'', Guarded), (''attach_actor_to_actor'', Guarded),
      (''detach_actor'', Guarded), (''select_actors'', Guarded),
      (''get_selected_actors'', NoArgs), (''clear_selection'', NoArgs),
      (''focus_on_actor'', Guarded), (''get_viewport_camera'', NoArgs),
      (''set_viewport_camera'', Guarded), (''take_screenshot'', TakeScreenshot),
      (''set_view_mode'', Guarded), (''get_view_mode'', NoArgs),
      (''pilot_actor'', Guarded), (''stop_piloting'', NoArgs),
      (''set_viewport_realtime'', Guarded), (''set_viewport_stats'', Guarded),
      (''get_current_level'', NoArgs), (''load_level'', Guarded),
      (''save_level'', SaveLevel), (''start_pie'', StartPIE), (''stop_pie'', NoArgs),
      (''search_assets'', Guarded), (''get_asset_info'', Guarded),
      (''load_asset'', Guarded), (''duplicate_asset'', Guarded),
      (''rename_asset'', Guarded), (''delete_asset'', Guarded),
      (''create_folder'', Guarded), (''get_asset_references'', Guarded),
      (''create_blueprint'', Guarded), (''get_blueprint_info'', Guarded),
      (''compile_blueprint'', Guarded), (''spawn_blueprint_actor'', Guarded),
      (''add_blueprint_variable'', Guarded), (''remove_blueprint_variable'', Guarded),
      (''get_blueprint_variables'', Guarded), (''get_blueprint_functions'', Guarded),
      (''set_blueprint_variable_default'', Guarded),
      (''create_material_instance'', Guarded), (''set_material_scalar'', Guarded),
      (''apply_material_to_actor'', Guarded), (''set_material_vector'', Guarded),
      (''get_material_parameters'', Guarded), (''replace_actor_material'', Guarded),
      (''get_actor_materials'', Guarded), (''execute_console_command'', Guarded),
      (''get_project_info'', NoArgs), (''set_simulate_physics'', Unguarded),
      (''set_collision_enabled'', Unguarded), (''set_collision_profile'', Unguarded),
      (''add_impulse'', Unguarded), (''get_physics_state'', Unguarded),
      (''get_editor_preference'', Unguarded), (''set_editor_preference'', Unguarded),
      (''run_editor_utility'', Unguarded), (''get_engine_info'', NoArgs),
      (''set_viewport_bookmark'', Unguarded), (''jump_to_bookmark'', Unguarded),
      (''clear_bookmark'', Unguarded), (''list_bookmarks'', NoArgs),
      (''get_actor_components'', Unguarded), (''get_component_properties'', Unguarded),
      (''set_component_transform'', Unguarded), (''set_component_visibility'', Unguarded),
      (''remove_component'', Unguarded), (''play_animation'', Unguarded),
      (''stop_animation'', Unguarded), (''get_animation_list'', Unguarded),
      (''create_level_sequence'', Unguarded), (''add_actor_to_sequence'', Unguarded),
      (''play_sequence'', Unguarded), (''stop_sequence'', NoArgs),
      (''set_sequence_time'', Unguarded), (''play_sound_at_location'', Unguarded),
      (''spawn_audio_component'', Unguarded), (''set_audio_volume'', Unguarded),
      (''stop_all_sounds'', NoArgs), (''get_audio_components'', Unguarded),
      (''set_audio_attenuation'', Unguarded), (''get_landscape_info'', NoArgs),
      (''get_landscape_height'', Unguarded), (''get_foliage_types'', NoArgs),
      (''add_foliage_instance'', Unguarded), (''remove_foliage_in_radius'', Unguarded),
      (''get_foliage_count'', Unguarded)]"


text \<open>
  The task run on the game thread: the chain, then its final \<^verbatim>\<open>else\<close>. The executor
  that runs is the one of the branch taken, whatever the case of the letters of
  \<open>ToolName\<close>.
\<close>

definition GameThreadTask ::
  "'obj JsonLibrary \<Rightarrow> ('obj, 'h) Editor \<Rightarrow> string \<Rightarrow> 'obj option \<Rightarrow> 'h
     \<Rightarrow> Fault + (string \<times> 'h)"
where
  "GameThreadTask L E ToolName Args h =
     (case find (\<lambda>branch. FStringEq ToolName (fst branch)) ToolChain of
        Some (n, k) \<Rightarrow> Execute L E k n Args h
      | None \<Rightarrow> Inr (''Unknown tool: '' @ ToolName, h))"

definition TextContent :: "string \<Rightarrow> FJsonObject" where
  "TextContent ResultText =
     [(''content'', FJsonValueArray
         [FJsonValueObject
            [(''type'', FJsonValueString ''text''),
             (''text'', FJsonValueString ResultText)]])]"

text \<open>
  \<^verbatim>\<open>HandleToolsCall\<close> submits the task to the game thread and waits for its event
  without a timeout. \<^verbatim>\<open>Args\<close> is the pointer \<^verbatim>\<open>GetObjectField\<close> returns, which is
  valid.
\<close>

definition HandleToolsCall ::
  "'obj JsonLibrary \<Rightarrow> ('obj, 'h) Editor \<Rightarrow> int32 \<Rightarrow> 'obj option \<Rightarrow> 'h
     \<Rightarrow> Fault + (Wire \<times> 'h)"
where
  "HandleToolsCall L E ReqId Params h =
     (case Params of
        None \<Rightarrow> Inr (Envelope (CreateErrorResponse ReqId (- 32602) ''Invalid params''), h)
      | Some P \<Rightarrow>
          (let ToolName = GetStringField L P ''name'';
               Args = Some (GetObjectField L P ''arguments'')
           in if \<not> RunsTask E h then Inl NoCompletion
              else (case GameThreadTask L E ToolName Args h of
                      Inl f \<Rightarrow> Inl f
                    | Inr (ResultText, h') \<Rightarrow>
                        Inr (Envelope (CreateSuccessResponse ReqId (TextContent ResultText)),
                             h'))))"

subsection \<open>ProcessMessage\<close>

definition ProcessMessage ::
  "'obj JsonLibrary \<Rightarrow> ('obj, 'h) Editor \<Rightarrow> string \<Rightarrow> 'h \<Rightarrow> Fault + (Wire \<times> 'h)"
where
  "ProcessMessage L E Message h =
     (case Deserialize L Message of
        None \<Rightarrow> Inr (Envelope (CreateErrorResponse 0 (- 32700) ''Parse error''), h)
      | Some Obj \<Rightarrow>
          (case TryGetStringField L Obj ''method'' of
             None \<Rightarrow> Inr (Envelope (CreateErrorResponse 0 (- 32600) ''Invalid Request''), h)
           | Some Method \<Rightarrow>
               (let ReqId = (case TryGetNumberField L Obj ''id'' of None \<Rightarrow> 0 | Some n \<Rightarrow> n)
                in if FStringEq Method ''initialize'' then
                     Inr (Envelope (HandleInitialize ReqId), h)
                   else if FStringEq Method ''tools/list'' then
                     Inr (Envelope (HandleToolsList ReqId), h)
                   else if FStringEq Method ''tools/call'' then
                     HandleToolsCall L E ReqId (Some (GetObjectField L Obj ''params'')) h
                   else if FStringEq Method ''notifications/initialized'' then
                     Inr (Nothing, h)
                   else Inr (Envelope (CreateErrorResponse ReqId (- 32601) ''Method not found''),
                             h))))"

text \<open>
  A sample editor over a state that records nothing: the game thread runs every task, no
  world is loaded, and every executor body answers as \<^verbatim>\<open>ExecuteSpawnActor\<close> does
  then.
\<close>

definition SampleBody :: "string \<Rightarrow> FJsonObject option \<Rightarrow> unit \<Rightarrow> (string \<times> unit) option" where
  "SampleBody tool Args h = Some (''Error: No world available'', h)"

definition SampleRunsTask :: "unit \<Rightarrow> bool" where
  "SampleRunsTask h = True"

definition SampleEditor :: "(FJsonObject, unit) Editor" where
  "SampleEditor = \<lparr> RunsTask = SampleRunsTask, Body = SampleBody \<rparr>"

subsection \<open>Framing of one socket read\<close>

text \<open>
  \<^verbatim>\<open>FString(UTF8_TO_TCHAR(Buffer.GetData()))\<close> reads memory from the start of the buffer
  as a C string. The buffer has no terminator of its own and \<^verbatim>\<open>BytesRead\<close> is not used,
  so the text is the received bytes followed by whatever memory comes after them, up to the
  first zero byte. \<open>After\<close> is that memory (the unwritten rest of the buffer and what
  lies behind it); the model's memory ends with it.
\<close>

definition ReceivedText :: "string \<Rightarrow> string \<Rightarrow> string" where
  "ReceivedText Buffer After = takeWhile (\<lambda>c. c \<noteq> CHR 0x00) (Buffer @ After)"

definition NewLine :: char where
  "NewLine = CHR 0x0A"

text \<open>The segments of a text between occurrences of a delimiter, the last one included.\<close>

fun Segments :: "char \<Rightarrow> string \<Rightarrow> string list" where
  "Segments d [] = [[]]"
| "Segments d (c # cs) =
     (if c = d then [] # Segments d cs
      else (case Segments d cs of
              [] \<Rightarrow> [[c]]
            | seg # segs \<Rightarrow> (c # seg) # segs))"

text \<open>\<^verbatim>\<open>Message.ParseIntoArray(Messages, TEXT("\n"), true)\<close>: empty segments are culled.\<close>

definition ParseIntoArray :: "string \<Rightarrow> string list" where
  "ParseIntoArray Message = filter (\<lambda>seg. seg \<noteq> []) (Segments NewLine Message)"

subsection \<open>The server loop\<close>

type_synonym FSocket = nat

text \<open>The calls the loop makes on the socket subsystem, in order.\<close>

datatype SocketCall =
    Accept FSocket
  | Close FSocket
  | DestroySocket FSocket
  | Send FSocket FJsonObject

text \<open>
  \<open>ClientSocket\<close> is the member of that name. \<open>Live\<close> is the set of client connections
  accepted and neither closed nor destroyed since; \<open>EditorState\<close> the state of the editor;
  \<open>Calls\<close> the socket calls made so far.
\<close>

record 'h Server =
  ClientSocket :: "FSocket option"
  Live :: "FSocket set"
  EditorState :: 'h
  Calls :: "SocketCall list"

text \<open>
  What the socket subsystem answers in one iteration: \<open>HasPendingConnection\<close> is
  \<^verbatim>\<open>ListenerSocket->HasPendingConnection(b) && b\<close>, \<open>AcceptResult\<close> the socket
  \<^verbatim>\<open>Accept\<close> returns (\<open>None\<close> for \<^verbatim>\<open>nullptr\<close>), \<open>HasPendingData\<close> is
  \<^verbatim>\<open>ClientSocket->HasPendingData(DataSize) && DataSize > 0\<close>, \<open>RecvResult\<close> the bytes
  \<^verbatim>\<open>Recv\<close> delivers (\<open>None\<close> when it returns false), \<open>MemoryAfter\<close> the memory that
  follows those bytes, \<open>IsConnected\<close> is \<^verbatim>\<open>GetConnectionState() == SCS_Connected\<close>.
\<close>

record Poll =
  HasPendingConnection :: bool
  AcceptResult :: "FSocket option"
  HasPendingData :: bool
  RecvResult :: "string option"
  MemoryAfter :: string
  IsConnected :: bool

definition InitialServer :: "'h \<Rightarrow> 'h Server" where
  "InitialServer h = \<lparr> ClientSocket = None, Live = {}, EditorState = h, Calls = [] \<rparr>"

text \<open>The first half of the loop body: a pending connection is accepted.\<close>

definition AcceptConnection :: "Poll \<Rightarrow> 'h Server \<Rightarrow> 'h Server" where
  "AcceptConnection p s =
     (if HasPendingConnection p then
        (case AcceptResult p of
           None \<Rightarrow> s
         | Some NewSocket \<Rightarrow>
             (case ClientSocket s of
                Some old \<Rightarrow>
                  s\<lparr> ClientSocket := Some NewSocket,
                     Live := insert NewSocket (Live s) - {old},
                     Calls := Calls s @ [Accept NewSocket, Close old, DestroySocket old] \<rparr>
              | None \<Rightarrow>
                  s\<lparr> ClientSocket := Some NewSocket,
                     Live := insert NewSocket (Live s),
                     Calls := Calls s @ [Accept NewSocket] \<rparr>))
      else s)"

text \<open>
  The \<^verbatim>\<open>for\<close> loop over the messages of one read: each non-empty message is processed and
  a non-empty response is sent to the client.
\<close>

fun SendResponses ::
  "'obj JsonLibrary \<Rightarrow> ('obj, 'h) Editor \<Rightarrow> FSocket \<Rightarrow> string list \<Rightarrow> 'h Server
     \<Rightarrow> Fault + 'h Server"
where
  "SendResponses L E c [] s = Inr s"
| "SendResponses L E c (Msg # Msgs) s =
     (if Msg = [] then SendResponses L E c Msgs s
      else (case ProcessMessage L E Msg (EditorState s) of
              Inl f \<Rightarrow> Inl f
            | Inr (Response, h') \<Rightarrow>
                (case Response of
                   Nothing \<Rightarrow> SendResponses L E c Msgs (s\<lparr> EditorState := h' \<rparr>)
                 | Envelope r \<Rightarrow>
                     SendResponses L E c Msgs
                       (s\<lparr> EditorState := h', Calls := Calls s @ [Send c r] \<rparr>))))"

text \<open>The second half of the loop body: the client is served or found gone.\<close>

definition ServeClient ::
  "'obj JsonLibrary \<Rightarrow> ('obj, 'h) Editor \<Rightarrow> Poll \<Rightarrow> 'h Server \<Rightarrow> Fault + 'h Server"
where
  "ServeClient L E p s =
     (case ClientSocket s of
        None \<Rightarrow> Inr s
      | Some c \<Rightarrow>
          if HasPendingData p then
            (case RecvResult p of
               None \<Rightarrow> Inr s
             | Some Buffer \<Rightarrow>
                 SendResponses L E c (ParseIntoArray (ReceivedText Buffer (MemoryAfter p))) s)
          else if \<not> IsConnected p then
            Inr (s\<lparr> ClientSocket := None,
                    Live := Live s - {c},
                    Calls := Calls s @ [DestroySocket c] \<rparr>)
          else Inr s)"

definition RunIteration ::
  "'obj JsonLibrary \<Rightarrow> ('obj, 'h) Editor \<Rightarrow> Poll \<Rightarrow> 'h Server \<Rightarrow> Fault + 'h Server"
where
  "RunIteration L E p s = ServeClient L E p (AcceptConnection p s)"

text \<open>
  \<^verbatim>\<open>while (!bShouldStop)\<close>: one iteration per element of the list, until another thread
  sets the flag.
\<close>

fun Run ::
  "'obj JsonLibrary \<Rightarrow> ('obj, 'h) Editor \<Rightarrow> Poll list \<Rightarrow> 'h Server \<Rightarrow> Fault + 'h Server"
where
  "Run L E [] s = Inr s"
| "Run L E (p # ps) s =
     (case RunIteration L E p s of
        Inl f \<Rightarrow> Inl f
      | Inr s' \<Rightarrow> Run L E ps s')"

text \<open>
  An iteration in which nobody connects and the client has sent \<open>Buffer\<close>, read into
  memory that goes on with \<open>After\<close>.
\<close>

definition DataPoll :: "string \<Rightarrow> string \<Rightarrow> Poll" where
  "DataPoll Buffer After =
     \<lparr> HasPendingConnection = False, AcceptResult = None, HasPendingData = True,
       RecvResult = Some Buffer, MemoryAfter = After, IsConnected = True \<rparr>"

text \<open>An iteration in which a client connects as socket \<open>n\<close> and has sent nothing yet.\<close>

definition ConnectPoll :: "FSocket \<Rightarrow> Poll" where
  "ConnectPoll n =
     \<lparr> HasPendingConnection = True, AcceptResult = Some n, HasPendingData = False,
       RecvResult = None, MemoryAfter = [], IsConnected = True \<rparr>"

text \<open>One live client: at most one connection is live, and it is \<open>ClientSocket\<close>.\<close>

definition at_most_one_live :: "'h Server \<Rightarrow> bool" where
  "at_most_one_live s = (Live s \<subseteq> set_option (ClientSocket s))"

section \<open>Properties\<close>

subsection \<open>Reading replies\<close>

lemma response_id_error [simp]: "response_id (CreateErrorResponse i c m) = Some (sint i)"
  by (simp add: response_id_def CreateErrorResponse_def)

lemma response_id_success [simp]: "response_id (CreateSuccessResponse i r) = Some (sint i)"
  by (simp add: response_id_def CreateSuccessResponse_def)

lemma error_code_error [simp]: "error_code (CreateErrorResponse i c m) = Some (sint c)"
  by (simp add: error_code_def CreateErrorResponse_def)

lemma error_code_success [simp]: "error_code (CreateSuccessResponse i r) = None"
  by (simp add: error_code_def CreateSuccessResponse_def)

lemma is_success_success [simp]: "is_success (CreateSuccessResponse i r)"
  by (simp add: is_success_def CreateSuccessResponse_def)

lemma is_success_error [simp]: "\<not> is_success (CreateErrorResponse i c m)"
  by (simp add: is_success_def CreateErrorResponse_def)

subsection \<open>Comparison of method names\<close>

lemma FStringEq_refl [simp]: "FStringEq a a"
  by (simp add: FStringEq_def)

lemma FStringEq_common: "FStringEq m a \<Longrightarrow> FStringEq m b = FStringEq a b"
  by (simp add: FStringEq_def)

lemma methods_apart:
  "\<not> FStringEq ''initialize'' ''tools/list''
   \<and> \<not> FStringEq ''initialize'' ''tools/call''
   \<and> \<not> FStringEq ''initialize'' ''notifications/initialized''
   \<and> \<not> FStringEq ''tools/list'' ''tools/call''
   \<and> \<not> FStringEq ''tools/list'' ''notifications/initialized''
   \<and> \<not> FStringEq ''tools/call'' ''notifications/initialized''
   \<and> \<not> FStringEq ''tools/list'' ''initialize''
   \<and> \<not> FStringEq ''tools/call'' ''initialize''
   \<and> \<not> FStringEq ''tools/call'' ''tools/list''
   \<and> \<not> FStringEq ''notifications/initialized'' ''initialize''
   \<and> \<not> FStringEq ''notifications/initialized'' ''tools/list''
   \<and> \<not> FStringEq ''notifications/initialized'' ''tools/call''"
  by code_simp

subsection \<open>The branches of ProcessMessage\<close>

lemma ProcessMessage_initialize:
  assumes "Deserialize L Message = Some Obj"
      and "TryGetStringField L Obj ''method'' = Some Method"
      and "FStringEq Method ''initialize''"
  shows "ProcessMessage L E Message h =
           Inr (Envelope (HandleInitialize
                  (case TryGetNumberField L Obj ''id'' of None \<Rightarrow> 0 | Some n \<Rightarrow> n)), h)"
  using assms by (simp add: ProcessMessage_def)

lemma ProcessMessage_tools_list:
  assumes "Deserialize L Message = Some Obj"
      and "TryGetStringField L Obj ''method'' = Some Method"
      and "FStringEq Method ''tools/list''"
  shows "ProcessMessage L E Message h =
           Inr (Envelope (HandleToolsList
                  (case TryGetNumberField L Obj ''id'' of None \<Rightarrow> 0 | Some n \<Rightarrow> n)), h)"
  using assms methods_apart
  by (simp add: ProcessMessage_def FStringEq_common [OF assms(3)])

lemma ProcessMessage_tools_call:
  assumes "Deserialize L Message = Some Obj"
      and "TryGetStringField L Obj ''method'' = Some Method"
      and "FStringEq Method ''tools/call''"
  shows "ProcessMessage L E Message h =
           HandleToolsCall L E
             (case TryGetNumberField L Obj ''id'' of None \<Rightarrow> 0 | Some n \<Rightarrow> n)
             (Some (GetObjectField L Obj ''params'')) h"
  using assms methods_apart
  by (simp add: ProcessMessage_def FStringEq_common [OF assms(3)])

lemma ProcessMessage_initialized:
  assumes "Deserialize L Message = Some Obj"
      and "TryGetStringField L Obj ''method'' = Some Method"
      and "FStringEq Method ''notifications/initialized''"
  shows "ProcessMessage L E Message h = Inr (Nothing, h)"
  using assms methods_apart
  by (simp add: ProcessMessage_def FStringEq_common [OF assms(3)])

lemma ProcessMessage_not_found:
  assumes "Deserialize L Message = Some Obj"
      and "TryGetStringField L Obj ''method'' = Some Method"
      and "\<not> FStringEq Method ''initialize''" and "\<not> FStringEq Method ''tools/list''"
      and "\<not> FStringEq Method ''tools/call''"
      and "\<not> FStringEq Method ''notifications/initialized''"
  shows "ProcessMessage L E Message h =
           Inr (Envelope (CreateErrorResponse
                  (case TryGetNumberField L Obj ''id'' of None \<Rightarrow> 0 | Some n \<Rightarrow> n)
                  (- 32601) ''Method not found''), h)"
  using assms by (simp add: ProcessMessage_def)

subsection \<open>Executors and tools/call\<close>

lemma Returned_cases:
  "Returned r = Inl NoCompletion \<or> (\<exists>t h'. Returned r = Inr (t, h'))"
  by (cases r) (auto simp: Returned_def)

lemma Returned_not_null [simp]: "Returned r \<noteq> Inl NullDereference"
  by (cases r) (auto simp: Returned_def)

lemma Execute_valid_pointer: "Execute L E k n (Some a) h \<noteq> Inl NullDereference"
  by (cases k) (auto simp: Let_def split: option.splits)

lemma GameThreadTask_valid_pointer:
  "GameThreadTask L E ToolName (Some a) h \<noteq> Inl NullDereference"
  by (auto simp: GameThreadTask_def Execute_valid_pointer split: option.splits)

lemma HandleToolsCall_valid_params:
  "HandleToolsCall L E ReqId (Some P) h =
     (if \<not> RunsTask E h then Inl NoCompletion
      else (case GameThreadTask L E (GetStringField L P ''name'')
                   (Some (GetObjectField L P ''arguments'')) h of
              Inl f \<Rightarrow> Inl f
            | Inr (ResultText, h') \<Rightarrow>
                Inr (Envelope (CreateSuccessResponse ReqId (TextContent ResultText)), h')))"
  by (simp add: HandleToolsCall_def Let_def)

lemma HandleToolsCall_valid_pointer:
  "HandleToolsCall L E ReqId (Some P) h \<noteq> Inl NullDereference"
  using GameThreadTask_valid_pointer
          [of L E "GetStringField L P ''name''" "GetObjectField L P ''arguments''" h]
  by (auto simp: HandleToolsCall_valid_params split: sum.splits prod.splits)

lemma HandleToolsCall_outcome:
  "HandleToolsCall L E ReqId (Some P) h = Inl NoCompletion
   \<or> (\<exists>ResultText h'. HandleToolsCall L E ReqId (Some P) h =
         Inr (Envelope (CreateSuccessResponse ReqId (TextContent ResultText)), h'))"
proof (cases "HandleToolsCall L E ReqId (Some P) h")
  case (Inl f)
  with HandleToolsCall_valid_pointer [of L E ReqId P h] show ?thesis
    by (cases f) simp_all
next
  case (Inr wh)
  then show ?thesis
    by (auto simp: HandleToolsCall_valid_params split: if_splits sum.splits prod.splits)
qed

lemma HandleToolsCall_not_silent: "HandleToolsCall L E i Params h \<noteq> Inr (Nothing, h')"
  by (auto simp: HandleToolsCall_def Let_def
           split: option.splits sum.splits prod.splits if_splits)

lemma Execute_completes:
  assumes "\<forall>Args. Body E n Args h \<noteq> None"
  shows "\<exists>t h'. Execute L E k n (Some a) h = Inr (t, h')"
proof -
  from assms have "Body E n None h \<noteq> None" and "Body E n (Some a) h \<noteq> None"
    by blast+
  then obtain t1 h1 t2 h2 where 1: "Body E n None h = Some (t1, h1)"
    and 2: "Body E n (Some a) h = Some (t2, h2)"
    by auto
  from 1 2 show ?thesis
    by (cases k) (simp_all add: Returned_def Let_def)
qed

lemma GameThreadTask_completes:
  assumes "\<forall>n Args. Body E n Args h \<noteq> None"
  shows "\<exists>t h'. GameThreadTask L E ToolName (Some a) h = Inr (t, h')"
proof (cases "find (\<lambda>branch. FStringEq ToolName (fst branch)) ToolChain")
  case None
  then show ?thesis by (simp add: GameThreadTask_def)
next
  case (Some nk)
  obtain n k where nk: "nk = (n, k)" by (cases nk)
  from assms have "\<forall>Args. Body E n Args h \<noteq> None" by simp
  from Execute_completes [OF this, of L k a] Some nk show ?thesis
    by (simp add: GameThreadTask_def)
qed

lemma HandleToolsCall_completes:
  assumes "RunsTask E h" and "\<forall>n Args. Body E n Args h \<noteq> None"
  shows "\<exists>ResultText h'. HandleToolsCall L E ReqId (Some P) h =
           Inr (Envelope (CreateSuccessResponse ReqId (TextContent ResultText)), h')"
proof -
  from GameThreadTask_completes [OF assms(2)] obtain t h' where
    "GameThreadTask L E (GetStringField L P ''name'')
       (Some (GetObjectField L P ''arguments'')) h = Inr (t, h')"
    by blast
  with assms(1) have "HandleToolsCall L E ReqId (Some P) h =
           Inr (Envelope (CreateSuccessResponse ReqId (TextContent t)), h')"
    by (simp add: HandleToolsCall_valid_params)
  then show ?thesis by blast
qed

lemma HandleToolsCall_unknown_tool:
  assumes "RunsTask E h"
      and "find (\<lambda>branch. FStringEq (GetStringField L P ''name'') (fst branch)) ToolChain = None"
  shows "HandleToolsCall L E ReqId (Some P) h =
           Inr (Envelope (CreateSuccessResponse ReqId
                  (TextContent (''Unknown tool: '' @ GetStringField L P ''name''))), h)"
  using assms by (simp add: HandleToolsCall_valid_params GameThreadTask_def)

lemma HandleToolsCall_body_text:
  assumes "RunsTask E h"
      and "find (\<lambda>branch. FStringEq (GetStringField L P ''name'') (fst branch)) ToolChain
             = Some (n, k)"
      and "k = Guarded \<or> k = Unguarded \<or> k = TakeScreenshot"
      and "Body E n (Some (GetObjectField L P ''arguments'')) h = Some (t, h')"
  shows "HandleToolsCall L E ReqId (Some P) h =
           Inr (Envelope (CreateSuccessResponse ReqId (TextContent t)), h')"
  using assms
  by (auto simp: HandleToolsCall_valid_params GameThreadTask_def Returned_def)

lemma ToolChain_no_empty_name:
  "find (\<lambda>branch. FStringEq [] (fst branch)) ToolChain = None"
  by code_simp

subsection \<open>The loop over the messages of a read\<close>

lemma SendResponses_single:
  "Msg \<noteq> [] \<Longrightarrow>
   SendResponses L E c [Msg] s =
     (case ProcessMessage L E Msg (EditorState s) of
        Inl f \<Rightarrow> Inl f
      | Inr (Nothing, h') \<Rightarrow> Inr (s\<lparr> EditorState := h' \<rparr>)
      | Inr (Envelope r, h') \<Rightarrow> Inr (s\<lparr> EditorState := h', Calls := Calls s @ [Send c r] \<rparr>))"
  by (simp split: sum.splits prod.splits Wire.splits)

lemma SendResponses_append:
  "SendResponses L E c (xs @ ys) s =
     (case SendResponses L E c xs s of
        Inl f \<Rightarrow> Inl f
      | Inr s' \<Rightarrow> SendResponses L E c ys s')"
  by (induction xs arbitrary: s) (auto split: sum.splits Wire.splits prod.splits)

lemma SendResponses_keeps_connection:
  "SendResponses L E c Msgs s = Inr s' \<Longrightarrow>
     ClientSocket s' = ClientSocket s \<and> Live s' = Live s"
  by (induction Msgs arbitrary: s) (auto split: sum.splits Wire.splits prod.splits if_splits)

subsection \<open>C1: one response per request\<close>

text \<open>
  C1, as the claim states it, fails: a request that carries id \<open>7\<close> and names the
  supported method \<^verbatim>\<open>notifications/initialized\<close> gets no response, and a request that
  carries id \<open>7\<close> but no method gets the fault reply \<open>-32600\<close> with id \<open>0\<close>.
\<close>

theorem C1_counterexample:
  "TryGetNumberField RefJson
     [(''jsonrpc'', FJsonValueString ''2.0''), (''id'', FJsonValueNumber 7),
      (''method'', FJsonValueString ''notifications/initialized'')] ''id'' = Some 7
   \<and> ProcessMessage RefJson SampleEditor
       ''{\"jsonrpc\":\"2.0\",\"id\":7,\"method\":\"notifications/initialized\"}'' () =
     Inr (Nothing, ())
   \<and> TryGetNumberField RefJson
       [(''jsonrpc'', FJsonValueString ''2.0''), (''id'', FJsonValueNumber 7)] ''id'' = Some 7
   \<and> ProcessMessage RefJson SampleEditor ''{\"jsonrpc\":\"2.0\",\"id\":7}'' () =
     Inr (Envelope (CreateErrorResponse 0 (- 32600) ''Invalid Request''), ())
   \<and> response_id (CreateErrorResponse 0 (- 32600) ''Invalid Request'') = Some 0"
  by code_simp

text \<open>
  C1, amended. Take a frame that deserializes, has a method string and carries an id.
  \<^item> If the method is \<^verbatim>\<open>notifications/initialized\<close>, in any letter case, no response is
    produced.
  \<^item> If it is \<^verbatim>\<open>initialize\<close> or \<^verbatim>\<open>tools/list\<close> (in any letter case) or an unsupported
    method, \<^verbatim>\<open>ProcessMessage\<close> returns one envelope whose id is the request's id.
  \<^item> If it is \<^verbatim>\<open>tools/call\<close> (in any letter case), \<^verbatim>\<open>ProcessMessage\<close> returns one
    envelope whose id is the request's id when the game thread runs the task and the
    executor body returns; the only other outcome is that the task never completes, and
    then no envelope is produced.
  Where an envelope is returned, the loop sends exactly that one envelope.
\<close>

theorem C1_one_response_with_request_id:
  assumes d: "Deserialize L Message = Some Obj"
      and m: "TryGetStringField L Obj ''method'' = Some Method"
      and i: "TryGetNumberField L Obj ''id'' = Some ReqId"
  shows "(FStringEq Method ''notifications/initialized'' \<longrightarrow>
            ProcessMessage L E Message h = Inr (Nothing, h))
       \<and> (\<not> FStringEq Method ''notifications/initialized''
            \<and> \<not> FStringEq Method ''tools/call'' \<longrightarrow>
            (\<exists>r. ProcessMessage L E Message h = Inr (Envelope r, h)
                \<and> response_id r = Some (sint ReqId)))
       \<and> (FStringEq Method ''tools/call'' \<longrightarrow>
            ProcessMessage L E Message h = Inl NoCompletion
            \<or> (\<exists>r h'. ProcessMessage L E Message h = Inr (Envelope r, h')
                   \<and> response_id r = Some (sint ReqId)))
       \<and> (FStringEq Method ''tools/call'' \<and> RunsTask E h
            \<and> (\<forall>n Args. Body E n Args h \<noteq> None) \<longrightarrow>
            (\<exists>r h'. ProcessMessage L E Message h = Inr (Envelope r, h')
                \<and> response_id r = Some (sint ReqId)))
       \<and> (\<not> FStringEq Method ''notifications/initialized'' \<and> Message \<noteq> [] \<longrightarrow>
            (\<forall>c s. EditorState s = h \<longrightarrow>
               SendResponses L E c [Message] s = Inl NoCompletion
               \<or> (\<exists>r s'. SendResponses L E c [Message] s = Inr s'
                      \<and> Calls s' = Calls s @ [Send c r]
                      \<and> response_id r = Some (sint ReqId))))"
proof -
  have silent: "ProcessMessage L E Message h = Inr (Nothing, h)"
    if "FStringEq Method ''notifications/initialized''"
    using d m that by (rule ProcessMessage_initialized)
  have call: "ProcessMessage L E Message h = HandleToolsCall L E ReqId
                (Some (GetObjectField L Obj ''params'')) h"
    if "FStringEq Method ''tools/call''"
    using ProcessMessage_tools_call [OF d m that, of E h] i by simp
  have other: "\<exists>r. ProcessMessage L E Message h = Inr (Envelope r, h)
                \<and> response_id r = Some (sint ReqId)"
    if n: "\<not> FStringEq Method ''notifications/initialized''"
       and c: "\<not> FStringEq Method ''tools/call''"
  proof (cases "FStringEq Method ''initialize''")
    case True
    from ProcessMessage_initialize [OF d m True, of E h] i show ?thesis
      by (simp add: HandleInitialize_def)
  next
    case False
    show ?thesis
    proof (cases "FStringEq Method ''tools/list''")
      case True
      from ProcessMessage_tools_list [OF d m True, of E h] i show ?thesis
        by (simp add: HandleToolsList_def)
    next
      case no_list: False
      from ProcessMessage_not_found [OF d m False no_list c n, of E h] i show ?thesis
        by simp
    qed
  qed
  have either: "ProcessMessage L E Message h = Inl NoCompletion
            \<or> (\<exists>r h'. ProcessMessage L E Message h = Inr (Envelope r, h')
                   \<and> response_id r = Some (sint ReqId))"
    if c: "FStringEq Method ''tools/call''"
    using HandleToolsCall_outcome [of L E ReqId "GetObjectField L Obj ''params''" h]
    unfolding call [OF c] by auto
  have completes: "\<exists>r h'. ProcessMessage L E Message h = Inr (Envelope r, h')
                \<and> response_id r = Some (sint ReqId)"
    if c: "FStringEq Method ''tools/call''" and r: "RunsTask E h"
       and b: "\<forall>n Args. Body E n Args h \<noteq> None"
    using HandleToolsCall_completes [OF r b, of L ReqId "GetObjectField L Obj ''params''"]
    unfolding call [OF c] by auto
  have reply: "ProcessMessage L E Message h = Inl NoCompletion
            \<or> (\<exists>r h'. ProcessMessage L E Message h = Inr (Envelope r, h')
                   \<and> response_id r = Some (sint ReqId))"
    if n: "\<not> FStringEq Method ''notifications/initialized''"
  proof (cases "FStringEq Method ''tools/call''")
    case True
    then show ?thesis by (rule either)
  next
    case False
    from other [OF n False] show ?thesis by blast
  qed
  have sent: "SendResponses L E c [Message] s = Inl NoCompletion
               \<or> (\<exists>r s'. SendResponses L E c [Message] s = Inr s'
                      \<and> Calls s' = Calls s @ [Send c r]
                      \<and> response_id r = Some (sint ReqId))"
    if "\<not> FStringEq Method ''notifications/initialized''" "Message \<noteq> []"
       "EditorState s = h"
    for c and s :: "'b Server"
    using reply [OF that(1)] that(2,3)
    by (auto simp: SendResponses_single)
  from silent other either completes sent show ?thesis
    by blast
qed

theorem C1_one_response_with_request_id_witness:
  "\<exists>r. ProcessMessage RefJson SampleEditor
           ''{\"jsonrpc\":\"2.0\",\"id\":1,\"method\":\"initialize\"}'' () = Inr (Envelope r, ())
        \<and> response_id r = Some (sint (1 :: int32))"
proof -
  have d: "Deserialize RefJson ''{\"jsonrpc\":\"2.0\",\"id\":1,\"method\":\"initialize\"}'' =
             Some [(''jsonrpc'', FJsonValueString ''2.0''), (''id'', FJsonValueNumber 1),
                   (''method'', FJsonValueString ''initialize'')]"
    by code_simp
  have m: "TryGetStringField RefJson
             [(''jsonrpc'', FJsonValueString ''2.0''), (''id'', FJsonValueNumber 1),
              (''method'', FJsonValueString ''initialize'')] ''method'' = Some ''initialize''"
    by code_simp
  have i: "TryGetNumberField RefJson
             [(''jsonrpc'', FJsonValueString ''2.0''), (''id'', FJsonValueNumber 1),
              (''method'', FJsonValueString ''initialize'')] ''id'' = Some 1"
    by code_simp
  have n: "\<not> FStringEq ''initialize'' ''notifications/initialized''
           \<and> \<not> FStringEq ''initialize'' ''tools/call''"
    by code_simp
  show ?thesis
    using C1_one_response_with_request_id
            [OF d m i, of SampleEditor "()", THEN conjunct2, THEN conjunct1, THEN mp, OF n] .
qed

subsection \<open>C2: frames of a read\<close>

lemma Segments_nonempty: "Segments d s \<noteq> []"
  by (induction s) (auto split: list.splits)

lemma Segments_append: "Segments d (a @ d # b) = Segments d a @ Segments d b"
  by (induction a) (auto split: list.splits simp: Segments_nonempty)

lemma Segments_no_delimiter: "d \<notin> set t \<Longrightarrow> Segments d t = [t]"
  by (induction t) (auto split: list.splits)

lemma Segments_free: "seg \<in> set (Segments d s) \<Longrightarrow> d \<notin> set seg"
  by (induction s arbitrary: seg) (auto split: list.splits if_splits)

lemma ReceivedText_terminated:
  "CHR 0x00 \<notin> set Buffer \<Longrightarrow> ReceivedText Buffer (CHR 0x00 # After) = Buffer"
  unfolding ReceivedText_def by (induction Buffer) auto

lemma two_reads:
  assumes "ClientSocket s = Some c"
  shows "Run L E [DataPoll r1 a1, DataPoll r2 a2] s =
           SendResponses L E c
             (ParseIntoArray (ReceivedText r1 a1) @ ParseIntoArray (ReceivedText r2 a2)) s"
proof (cases "SendResponses L E c (ParseIntoArray (ReceivedText r1 a1)) s")
  case (Inl f)
  with assms show ?thesis
    by (simp add: RunIteration_def AcceptConnection_def ServeClient_def DataPoll_def
                  SendResponses_append)
next
  case (Inr s1)
  from SendResponses_keeps_connection [OF Inr] assms have "ClientSocket s1 = Some c"
    by simp
  with Inr assms show ?thesis
    by (simp add: RunIteration_def AcceptConnection_def ServeClient_def DataPoll_def
                  SendResponses_append split: sum.splits)
qed

text \<open>
  C2, as the claim states it, fails: the bytes of a read that follow its last newline are
  not kept for the next read but processed at once as a frame. A valid line that arrives in
  two reads, each followed in memory by a zero byte, is answered twice, each time with the
  parse error, and never with the reply to the line.
\<close>

theorem C2_counterexample:
  "Deserialize RefJson ''{\"jsonrpc\":\"2.0\",\"id\":1,\"method\":\"initialize\"}'' =
     Some [(''jsonrpc'', FJsonValueString ''2.0''), (''id'', FJsonValueNumber 1),
           (''method'', FJsonValueString ''initialize'')]
   \<and> ParseIntoArray (ReceivedText ''{\"jsonrpc\":\"2.0\",\"id\":1,\"met'' [CHR 0x00]) =
       [''{\"jsonrpc\":\"2.0\",\"id\":1,\"met'']
   \<and> Run RefJson SampleEditor
         [DataPoll ''{\"jsonrpc\":\"2.0\",\"id\":1,\"met'' [CHR 0x00],
          DataPoll (''hod\":\"initialize\"}'' @ [NewLine]) [CHR 0x00]]
         \<lparr> ClientSocket = Some 1, Live = {1}, EditorState = (), Calls = [] \<rparr> =
       Inr \<lparr> ClientSocket = Some 1, Live = {1}, EditorState = (),
             Calls = [Send 1 (CreateErrorResponse 0 (- 32700) ''Parse error''),
                      Send 1 (CreateErrorResponse 0 (- 32700) ''Parse error'')] \<rparr>"
proof -
  have a: "Deserialize RefJson ''{\"jsonrpc\":\"2.0\",\"id\":1,\"method\":\"initialize\"}'' =
     Some [(''jsonrpc'', FJsonValueString ''2.0''), (''id'', FJsonValueNumber 1),
           (''method'', FJsonValueString ''initialize'')]"
    by code_simp
  have b: "ParseIntoArray (ReceivedText ''{\"jsonrpc\":\"2.0\",\"id\":1,\"met'' [CHR 0x00]) =
       [''{\"jsonrpc\":\"2.0\",\"id\":1,\"met'']"
    by code_simp
  have b2: "ParseIntoArray (ReceivedText (''hod\":\"initialize\"}'' @ [NewLine]) [CHR 0x00]) =
       [''hod\":\"initialize\"}'']"
    by code_simp
  have p1: "ProcessMessage RefJson SampleEditor ''{\"jsonrpc\":\"2.0\",\"id\":1,\"met'' () =
       Inr (Envelope (CreateErrorResponse 0 (- 32700) ''Parse error''), ())"
    by code_simp
  have p2: "ProcessMessage RefJson SampleEditor ''hod\":\"initialize\"}'' () =
       Inr (Envelope (CreateErrorResponse 0 (- 32700) ''Parse error''), ())"
    by code_simp
  have c: "Run RefJson SampleEditor
         [DataPoll ''{\"jsonrpc\":\"2.0\",\"id\":1,\"met'' [CHR 0x00],
          DataPoll (''hod\":\"initialize\"}'' @ [NewLine]) [CHR 0x00]]
         \<lparr> ClientSocket = Some 1, Live = {1}, EditorState = (), Calls = [] \<rparr> =
       Inr \<lparr> ClientSocket = Some 1, Live = {1}, EditorState = (),
             Calls = [Send 1 (CreateErrorResponse 0 (- 32700) ''Parse error''),
                      Send 1 (CreateErrorResponse 0 (- 32700) ''Parse error'')] \<rparr>"
  proof -
    have "Run RefJson SampleEditor
         [DataPoll ''{\"jsonrpc\":\"2.0\",\"id\":1,\"met'' [CHR 0x00],
          DataPoll (''hod\":\"initialize\"}'' @ [NewLine]) [CHR 0x00]]
         \<lparr> ClientSocket = Some 1, Live = {1}, EditorState = (), Calls = [] \<rparr> =
       SendResponses RefJson SampleEditor 1
         (ParseIntoArray (ReceivedText ''{\"jsonrpc\":\"2.0\",\"id\":1,\"met'' [CHR 0x00])
          @ ParseIntoArray (ReceivedText (''hod\":\"initialize\"}'' @ [NewLine]) [CHR 0x00]))
         \<lparr> ClientSocket = Some 1, Live = {1}, EditorState = (), Calls = [] \<rparr>"
      by (rule two_reads) simp
    also have "\<dots> = SendResponses RefJson SampleEditor 1
         [''{\"jsonrpc\":\"2.0\",\"id\":1,\"met'', ''hod\":\"initialize\"}'']
         \<lparr> ClientSocket = Some 1, Live = {1}, EditorState = (), Calls = [] \<rparr>"
      unfolding b b2 by simp
    also have "\<dots> = Inr \<lparr> ClientSocket = Some 1, Live = {1}, EditorState = (),
             Calls = [Send 1 (CreateErrorResponse 0 (- 32700) ''Parse error''),
                      Send 1 (CreateErrorResponse 0 (- 32700) ''Parse error'')] \<rparr>"
      by (simp add: p1 p2)
    finally show ?thesis .
  qed
  from a b c show ?thesis by (intro conjI)
qed

text \<open>
  C2, amended. The text of a read is taken from memory, from the start of the buffer to the
  first zero byte; when a zero byte directly follows the received bytes and they contain
  none, the text is the received bytes. Each read's text is split on the newline on its
  own: a newline separates the frames before it from the frames after it, in order; no
  frame is empty or contains a newline; and what follows the last newline of the text, if
  anything, is a frame of that read. Nothing is carried from one read to the next: two reads
  are processed as the frames of the first text followed by the frames of the second.
\<close>

theorem C2_each_read_framed_on_its_own:
  "ParseIntoArray (a @ NewLine # b) = ParseIntoArray a @ ParseIntoArray b
   \<and> (t \<noteq> [] \<and> NewLine \<notin> set t \<longrightarrow> ParseIntoArray t = [t])
   \<and> (\<forall>f \<in> set (ParseIntoArray m). f \<noteq> [] \<and> NewLine \<notin> set f)
   \<and> (CHR 0x00 \<notin> set r1 \<longrightarrow> ReceivedText r1 (CHR 0x00 # a1) = r1)
   \<and> (\<forall>s c. ClientSocket s = Some c \<longrightarrow>
         Run (L :: 'obj JsonLibrary) (E :: ('obj, 'h) Editor) [DataPoll r1 m1, DataPoll r2 m2] s =
           SendResponses L E c
             (ParseIntoArray (ReceivedText r1 m1) @ ParseIntoArray (ReceivedText r2 m2)) s)
   \<and> (\<forall>s c. ClientSocket s = Some c \<and> CHR 0x00 \<notin> set r1 \<and> CHR 0x00 \<notin> set r2 \<longrightarrow>
         Run L E [DataPoll r1 (CHR 0x00 # a1), DataPoll r2 (CHR 0x00 # a2)] s =
           SendResponses L E c (ParseIntoArray r1 @ ParseIntoArray r2) s)"
proof -
  have split: "ParseIntoArray (a @ NewLine # b) = ParseIntoArray a @ ParseIntoArray b"
    by (simp add: ParseIntoArray_def Segments_append)
  have tail: "t \<noteq> [] \<and> NewLine \<notin> set t \<longrightarrow> ParseIntoArray t = [t]"
    by (simp add: ParseIntoArray_def Segments_no_delimiter)
  have frames: "\<forall>f \<in> set (ParseIntoArray m). f \<noteq> [] \<and> NewLine \<notin> set f"
    by (auto simp: ParseIntoArray_def dest: Segments_free)
  have terminated: "CHR 0x00 \<notin> set r1 \<longrightarrow> ReceivedText r1 (CHR 0x00 # a1) = r1"
    by (simp add: ReceivedText_terminated)
  have reads: "\<forall>s c. ClientSocket s = Some c \<longrightarrow>
         Run L E [DataPoll r1 m1, DataPoll r2 m2] s =
           SendResponses L E c
             (ParseIntoArray (ReceivedText r1 m1) @ ParseIntoArray (ReceivedText r2 m2)) s"
    by (intro allI impI) (rule two_reads)
  have clean: "\<forall>s c. ClientSocket s = Some c \<and> CHR 0x00 \<notin> set r1 \<and> CHR 0x00 \<notin> set r2 \<longrightarrow>
         Run L E [DataPoll r1 (CHR 0x00 # a1), DataPoll r2 (CHR 0x00 # a2)] s =
           SendResponses L E c (ParseIntoArray r1 @ ParseIntoArray r2) s"
  proof (intro allI impI)
    fix s :: "'h Server" and c
    assume "ClientSocket s = Some c \<and> CHR 0x00 \<notin> set r1 \<and> CHR 0x00 \<notin> set r2"
    then have cs: "ClientSocket s = Some c" and z1: "CHR 0x00 \<notin> set r1"
      and z2: "CHR 0x00 \<notin> set r2"
      by simp_all
    show "Run L E [DataPoll r1 (CHR 0x00 # a1), DataPoll r2 (CHR 0x00 # a2)] s =
           SendResponses L E c (ParseIntoArray r1 @ ParseIntoArray r2) s"
      unfolding two_reads [OF cs] ReceivedText_terminated [OF z1] ReceivedText_terminated [OF z2]
      by (rule refl)
  qed
  from split tail frames terminated reads clean show ?thesis
    by (intro conjI)
qed

theorem C2_each_read_framed_on_its_own_witness:
  "ParseIntoArray ''{\"id\":1,\"met'' = [''{\"id\":1,\"met'']"
proof -
  have n: "''{\"id\":1,\"met'' \<noteq> [] \<and> NewLine \<notin> set ''{\"id\":1,\"met''"
    by code_simp
  show ?thesis
    using C2_each_read_framed_on_its_own
            [of "[]" "[]" "''{\"id\":1,\"met''" "[]" "[]" "[]" RefJson SampleEditor
                "[]" "[]" "[]" "[]",
             THEN conjunct2, THEN conjunct1, THEN mp, OF n] .
qed

subsection \<open>C3: the reply to tools/call is a success\<close>



lemma scenario_B_unknown_tool:
  "ProcessMessage RefJson SampleEditor
     ''{\"jsonrpc\":\"2.0\",\"id\":2,\"method\":\"tools/call\",\"params\":{\"name\":\"does_not_exist\"}}''
     () =
   Inr (Envelope (CreateSuccessResponse 2 (TextContent ''Unknown tool: does_not_exist'')), ())"
  by code_simp

subsection \<open>C5: validation of params and name\<close>

text \<open>
  C5, as the claim states it, fails: a \<^verbatim>\<open>tools/call\<close> without \<^verbatim>\<open>params\<close> is not
  answered with \<open>-32602\<close>, and one whose \<^verbatim>\<open>params\<close> has no \<^verbatim>\<open>name\<close> is not
  rejected; both are dispatched with the empty name and answered with a success.
\<close>

theorem C5_counterexample:
  "HasField RefJson
     [(''jsonrpc'', FJsonValueString ''2.0''), (''id'', FJsonValueNumber 3),
      (''method'', FJsonValueString ''tools/call'')] ''params'' = False
   \<and> ProcessMessage RefJson SampleEditor
       ''{\"jsonrpc\":\"2.0\",\"id\":3,\"method\":\"tools/call\"}'' () =
     Inr (Envelope (CreateSuccessResponse 3 (TextContent ''Unknown tool: '')), ())
   \<and> TryGetStringField RefJson [(''arguments'', FJsonValueObject [])] ''name'' = None
   \<and> ProcessMessage RefJson SampleEditor
       ''{\"jsonrpc\":\"2.0\",\"id\":3,\"method\":\"tools/call\",\"params\":{\"arguments\":{}}}'' () =
     Inr (Envelope (CreateSuccessResponse 3 (TextContent ''Unknown tool: '')), ())
   \<and> is_success (CreateSuccessResponse 3 (TextContent ''Unknown tool: ''))
   \<and> error_code (CreateSuccessResponse 3 (TextContent ''Unknown tool: '')) = None"
  by code_simp

text \<open>
  C5, amended. \<^verbatim>\<open>ProcessMessage\<close> validates neither \<^verbatim>\<open>params\<close> nor \<^verbatim>\<open>name\<close>
  before it dispatches. The pointer it passes as \<^verbatim>\<open>params\<close> is always valid, so a
  \<^verbatim>\<open>tools/call\<close> request is never answered with \<open>-32602\<close>, nor with any other error:
  the \<open>-32602\<close> branch of \<^verbatim>\<open>HandleToolsCall\<close> is taken only for an invalid pointer. The
  task is run on whatever string \<^verbatim>\<open>GetStringField("name")\<close> returns, and when that
  string is empty and the game thread runs the task the reply is the success whose text is
  \<^verbatim>\<open>Unknown tool: \<close>.
\<close>

theorem C5_neither_params_nor_name_validated:
  "(\<forall>Obj Method. Deserialize L Message = Some Obj
        \<and> TryGetStringField L Obj ''method'' = Some Method
        \<and> FStringEq Method ''tools/call'' \<longrightarrow>
      ProcessMessage L E Message h =
        HandleToolsCall L E
          (case TryGetNumberField L Obj ''id'' of None \<Rightarrow> 0 | Some n \<Rightarrow> n)
          (Some (GetObjectField L Obj ''params'')) h
      \<and> (\<forall>r h'. ProcessMessage L E Message h = Inr (Envelope r, h') \<longrightarrow>
             error_code r = None \<and> is_success r)
      \<and> (RunsTask E h \<and> GetStringField L (GetObjectField L Obj ''params'') ''name'' = [] \<longrightarrow>
           ProcessMessage L E Message h =
             Inr (Envelope (CreateSuccessResponse
                    (case TryGetNumberField L Obj ''id'' of None \<Rightarrow> 0 | Some n \<Rightarrow> n)
                    (TextContent ''Unknown tool: '')), h)))
   \<and> (\<forall>ReqId P. HandleToolsCall L E ReqId (Some P) h =
        (if \<not> RunsTask E h then Inl NoCompletion
         else (case GameThreadTask L E (GetStringField L P ''name'')
                      (Some (GetObjectField L P ''arguments'')) h of
                 Inl f \<Rightarrow> Inl f
               | Inr (ResultText, h') \<Rightarrow>
                   Inr (Envelope (CreateSuccessResponse ReqId (TextContent ResultText)), h'))))
   \<and> (\<forall>ReqId. HandleToolsCall L E ReqId None h =
        Inr (Envelope (CreateErrorResponse ReqId (- 32602) ''Invalid params''), h))"
proof -
  have c1: "\<forall>Obj Method. Deserialize L Message = Some Obj
        \<and> TryGetStringField L Obj ''method'' = Some Method
        \<and> FStringEq Method ''tools/call'' \<longrightarrow>
      ProcessMessage L E Message h =
        HandleToolsCall L E
          (case TryGetNumberField L Obj ''id'' of None \<Rightarrow> 0 | Some n \<Rightarrow> n)
          (Some (GetObjectField L Obj ''params'')) h
      \<and> (\<forall>r h'. ProcessMessage L E Message h = Inr (Envelope r, h') \<longrightarrow>
             error_code r = None \<and> is_success r)
      \<and> (RunsTask E h \<and> GetStringField L (GetObjectField L Obj ''params'') ''name'' = [] \<longrightarrow>
           ProcessMessage L E Message h =
             Inr (Envelope (CreateSuccessResponse
                    (case TryGetNumberField L Obj ''id'' of None \<Rightarrow> 0 | Some n \<Rightarrow> n)
                    (TextContent ''Unknown tool: '')), h))"
  proof (intro allI impI)
    fix Obj Method
    assume a: "Deserialize L Message = Some Obj
        \<and> TryGetStringField L Obj ''method'' = Some Method
        \<and> FStringEq Method ''tools/call''"
    define i where "i = (case TryGetNumberField L Obj ''id'' of None \<Rightarrow> 0 | Some n \<Rightarrow> n)"
    define P where "P = GetObjectField L Obj ''params''"
    from a have pm: "ProcessMessage L E Message h = HandleToolsCall L E i (Some P) h"
      unfolding i_def P_def using ProcessMessage_tools_call [of L Message Obj Method E h]
      by simp
    have ok: "error_code r = None \<and> is_success r"
      if "ProcessMessage L E Message h = Inr (Envelope r, h')" for r h'
      using that HandleToolsCall_outcome [of L E i P h] unfolding pm by auto
    have unknown: "ProcessMessage L E Message h =
             Inr (Envelope (CreateSuccessResponse i (TextContent ''Unknown tool: '')), h)"
      if "RunsTask E h \<and> GetStringField L P ''name'' = []"
      using that HandleToolsCall_unknown_tool [of E h L P i] ToolChain_no_empty_name
      unfolding pm by simp
    from pm ok unknown
    show "ProcessMessage L E Message h =
        HandleToolsCall L E
          (case TryGetNumberField L Obj ''id'' of None \<Rightarrow> 0 | Some n \<Rightarrow> n)
          (Some (GetObjectField L Obj ''params'')) h
      \<and> (\<forall>r h'. ProcessMessage L E Message h = Inr (Envelope r, h') \<longrightarrow>
             error_code r = None \<and> is_success r)
      \<and> (RunsTask E h \<and> GetStringField L (GetObjectField L Obj ''params'') ''name'' = [] \<longrightarrow>
           ProcessMessage L E Message h =
             Inr (Envelope (CreateSuccessResponse
                    (case TryGetNumberField L Obj ''id'' of None \<Rightarrow> 0 | Some n \<Rightarrow> n)
                    (TextContent ''Unknown tool: '')), h))"
      unfolding i_def P_def by blast
  qed
  have c2: "\<forall>ReqId P. HandleToolsCall L E ReqId (Some P) h =
        (if \<not> RunsTask E h then Inl NoCompletion
         else (case GameThreadTask L E (GetStringField L P ''name'')
                      (Some (GetObjectField L P ''arguments'')) h of
                 Inl f \<Rightarrow> Inl f
               | Inr (ResultText, h') \<Rightarrow>
                   Inr (Envelope (CreateSuccessResponse ReqId (TextContent ResultText)), h')))"
    by (simp add: HandleToolsCall_valid_params)
  have c3: "\<forall>ReqId. HandleToolsCall L E ReqId None h =
        Inr (Envelope (CreateErrorResponse ReqId (- 32602) ''Invalid params''), h)"
    by (simp add: HandleToolsCall_def)
  from c1 c2 c3 show ?thesis
    by (intro conjI)
qed

theorem C5_neither_params_nor_name_validated_witness:
  "ProcessMessage RefJson SampleEditor
     ''{\"jsonrpc\":\"2.0\",\"id\":3,\"method\":\"tools/call\"}'' () =
   Inr (Envelope (CreateSuccessResponse 3 (TextContent ''Unknown tool: '')), ())"
proof -
  have d: "Deserialize RefJson ''{\"jsonrpc\":\"2.0\",\"id\":3,\"method\":\"tools/call\"}'' =
             Some [(''jsonrpc'', FJsonValueString ''2.0''), (''id'', FJsonValueNumber 3),
                   (''method'', FJsonValueString ''tools/call'')]"
    by code_simp
  have m: "TryGetStringField RefJson
             [(''jsonrpc'', FJsonValueString ''2.0''), (''id'', FJsonValueNumber 3),
              (''method'', FJsonValueString ''tools/call'')] ''method'' = Some ''tools/call''"
    by code_simp
  have e: "FStringEq ''tools/call'' ''tools/call''"
    by simp
  have i: "TryGetNumberField RefJson
             [(''jsonrpc'', FJsonValueString ''2.0''), (''id'', FJsonValueNumber 3),
              (''method'', FJsonValueString ''tools/call'')] ''id'' = Some 3"
    by code_simp
  have rn: "RunsTask SampleEditor ()
            \<and> GetStringField RefJson
                (GetObjectField RefJson
                   [(''jsonrpc'', FJsonValueString ''2.0''), (''id'', FJsonValueNumber 3),
                    (''method'', FJsonValueString ''tools/call'')] ''params'') ''name'' = []"
    by code_simp
  have "ProcessMessage RefJson SampleEditor
          ''{\"jsonrpc\":\"2.0\",\"id\":3,\"method\":\"tools/call\"}'' () =
        Inr (Envelope (CreateSuccessResponse
               (case TryGetNumberField RefJson
                       [(''jsonrpc'', FJsonValueString ''2.0''), (''id'', FJsonValueNumber 3),
                        (''method'', FJsonValueString ''tools/call'')] ''id''
                of None \<Rightarrow> 0 | Some n \<Rightarrow> n)
               (TextContent ''Unknown tool: '')), ())"
    using C5_neither_params_nor_name_validated
            [of RefJson "''{\"jsonrpc\":\"2.0\",\"id\":3,\"method\":\"tools/call\"}''"
                SampleEditor "()",
             THEN conjunct1, THEN spec, THEN spec, THEN mp, OF conjI [OF d conjI [OF m e]],
             THEN conjunct2, THEN conjunct2, THEN mp, OF rn] .
  with i show ?thesis
    by simp
qed

subsection \<open>C6: fault classification\<close>

text \<open>
  C6, as the claim states it, fails in its last part: the method names are compared with
  \<^verbatim>\<open>FString::operator==\<close>, which ignores letter case, so a frame whose method is
  \<^verbatim>\<open>Initialize\<close>, a string that is none of the four supported method names, is
  answered as \<^verbatim>\<open>initialize\<close> is, not with \<open>-32601\<close>.
\<close>

theorem C6_counterexample:
  "''Initialize'' \<noteq> ''initialize'' \<and> ''Initialize'' \<noteq> ''tools/list''
   \<and> ''Initialize'' \<noteq> ''tools/call'' \<and> ''Initialize'' \<noteq> ''notifications/initialized''
   \<and> TryGetStringField RefJson
       [(''jsonrpc'', FJsonValueString ''2.0''), (''id'', FJsonValueNumber 7),
        (''method'', FJsonValueString ''Initialize'')] ''method'' = Some ''Initialize''
   \<and> ProcessMessage RefJson SampleEditor
       ''{\"jsonrpc\":\"2.0\",\"id\":7,\"method\":\"Initialize\"}'' () =
     Inr (Envelope (HandleInitialize 7), ())
   \<and> is_success (HandleInitialize 7)
   \<and> error_code (HandleInitialize 7) = None"
  by code_simp

text \<open>
  C6, amended. For every frame: when the library cannot deserialize it, the reply is the
  error \<open>-32700\<close> with id \<open>0\<close>; when it deserializes and \<^verbatim>\<open>TryGetStringField("method")\<close>
  fails, the reply is the error \<open>-32600\<close>, with id \<open>0\<close>; when the method is a string that
  differs from each of the four supported names by more than letter case, the reply is the
  error \<open>-32601\<close> with the request's id. The editor state is untouched in all three
  cases. A method that differs from \<^verbatim>\<open>initialize\<close> or \<^verbatim>\<open>tools/list\<close> in letter case
  only is served as that method.
\<close>

theorem C6_fault_classification_up_to_case:
  "(Deserialize L Message = None \<longrightarrow>
      ProcessMessage L E Message h =
        Inr (Envelope (CreateErrorResponse 0 (- 32700) ''Parse error''), h))
   \<and> (\<forall>Obj. Deserialize L Message = Some Obj \<and> TryGetStringField L Obj ''method'' = None \<longrightarrow>
      ProcessMessage L E Message h =
        Inr (Envelope (CreateErrorResponse 0 (- 32600) ''Invalid Request''), h))
   \<and> (\<forall>Obj Method. Deserialize L Message = Some Obj
         \<and> TryGetStringField L Obj ''method'' = Some Method
         \<and> \<not> FStringEq Method ''initialize'' \<and> \<not> FStringEq Method ''tools/list''
         \<and> \<not> FStringEq Method ''tools/call''
         \<and> \<not> FStringEq Method ''notifications/initialized'' \<longrightarrow>
      ProcessMessage L E Message h =
        Inr (Envelope (CreateErrorResponse
               (case TryGetNumberField L Obj ''id'' of None \<Rightarrow> 0 | Some n \<Rightarrow> n)
               (- 32601) ''Method not found''), h))
   \<and> (\<forall>Obj Method. Deserialize L Message = Some Obj
         \<and> TryGetStringField L Obj ''method'' = Some Method
         \<and> FStringEq Method ''initialize'' \<longrightarrow>
      ProcessMessage L E Message h =
        Inr (Envelope (HandleInitialize
               (case TryGetNumberField L Obj ''id'' of None \<Rightarrow> 0 | Some n \<Rightarrow> n)), h))
   \<and> (\<forall>Obj Method. Deserialize L Message = Some Obj
         \<and> TryGetStringField L Obj ''method'' = Some Method
         \<and> FStringEq Method ''tools/list'' \<longrightarrow>
      ProcessMessage L E Message h =
        Inr (Envelope (HandleToolsList
               (case TryGetNumberField L Obj ''id'' of None \<Rightarrow> 0 | Some n \<Rightarrow> n)), h))
   \<and> error_code (CreateErrorResponse 0 (- 32700) ''Parse error'') = Some (- 32700)
   \<and> response_id (CreateErrorResponse 0 (- 32700) ''Parse error'') = Some 0
   \<and> error_code (CreateErrorResponse 0 (- 32600) ''Invalid Request'') = Some (- 32600)
   \<and> (\<forall>ReqId. error_code (CreateErrorResponse ReqId (- 32601) ''Method not found'')
         = Some (- 32601))"
proof -
  have c1: "Deserialize L Message = None \<longrightarrow>
      ProcessMessage L E Message h =
        Inr (Envelope (CreateErrorResponse 0 (- 32700) ''Parse error''), h)"
    by (simp add: ProcessMessage_def)
  have c2: "\<forall>Obj. Deserialize L Message = Some Obj
         \<and> TryGetStringField L Obj ''method'' = None \<longrightarrow>
      ProcessMessage L E Message h =
        Inr (Envelope (CreateErrorResponse 0 (- 32600) ''Invalid Request''), h)"
    by (simp add: ProcessMessage_def)
  have c3: "\<forall>Obj Method. Deserialize L Message = Some Obj
         \<and> TryGetStringField L Obj ''method'' = Some Method
         \<and> \<not> FStringEq Method ''initialize'' \<and> \<not> FStringEq Method ''tools/list''
         \<and> \<not> FStringEq Method ''tools/call''
         \<and> \<not> FStringEq Method ''notifications/initialized'' \<longrightarrow>
      ProcessMessage L E Message h =
        Inr (Envelope (CreateErrorResponse
               (case TryGetNumberField L Obj ''id'' of None \<Rightarrow> 0 | Some n \<Rightarrow> n)
               (- 32601) ''Method not found''), h)"
    using ProcessMessage_not_found [of L Message _ _ E h] by blast
  have c4: "\<forall>Obj Method. Deserialize L Message = Some Obj
         \<and> TryGetStringField L Obj ''method'' = Some Method
         \<and> FStringEq Method ''initialize'' \<longrightarrow>
      ProcessMessage L E Message h =
        Inr (Envelope (HandleInitialize
               (case TryGetNumberField L Obj ''id'' of None \<Rightarrow> 0 | Some n \<Rightarrow> n)), h)"
    using ProcessMessage_initialize [of L Message _ _ E h] by blast
  have c5: "\<forall>Obj Method. Deserialize L Message = Some Obj
         \<and> TryGetStringField L Obj ''method'' = Some Method
         \<and> FStringEq Method ''tools/list'' \<longrightarrow>
      ProcessMessage L E Message h =
        Inr (Envelope (HandleToolsList
               (case TryGetNumberField L Obj ''id'' of None \<Rightarrow> 0 | Some n \<Rightarrow> n)), h)"
    using ProcessMessage_tools_list [of L Message _ _ E h] by blast
  have c6: "error_code (CreateErrorResponse 0 (- 32700) ''Parse error'') = Some (- 32700)"
    by simp
  have c7: "response_id (CreateErrorResponse 0 (- 32700) ''Parse error'') = Some 0"
    by simp
  have c8: "error_code (CreateErrorResponse 0 (- 32600) ''Invalid Request'') = Some (- 32600)"
    by simp
  have c9: "\<forall>ReqId. error_code (CreateErrorResponse ReqId (- 32601) ''Method not found'')
         = Some (- 32601)"
    by simp
  from c1 c2 c3 c4 c5 c6 c7 c8 c9 show ?thesis
    by (intro conjI)
qed

theorem C6_fault_classification_up_to_case_witness:
  "ProcessMessage RefJson SampleEditor ''{\"jsonrpc\":'' () =
     Inr (Envelope (CreateErrorResponse 0 (- 32700) ''Parse error''), ())
   \<and> ProcessMessage RefJson SampleEditor ''{\"jsonrpc\":\"2.0\",\"id\":7}'' () =
     Inr (Envelope (CreateErrorResponse 0 (- 32600) ''Invalid Request''), ())
   \<and> ProcessMessage RefJson SampleEditor
       ''{\"jsonrpc\":\"2.0\",\"id\":7,\"method\":\"ping\"}'' () =
     Inr (Envelope (CreateErrorResponse 7 (- 32601) ''Method not found''), ())"
proof -
  have a: "Deserialize RefJson ''{\"jsonrpc\":'' = None"
    by code_simp
  have b: "Deserialize RefJson ''{\"jsonrpc\":\"2.0\",\"id\":7}'' =
             Some [(''jsonrpc'', FJsonValueString ''2.0''), (''id'', FJsonValueNumber 7)]"
    by code_simp
  have b2: "TryGetStringField RefJson
              [(''jsonrpc'', FJsonValueString ''2.0''), (''id'', FJsonValueNumber 7)]
              ''method'' = None"
    by code_simp
  have c: "Deserialize RefJson ''{\"jsonrpc\":\"2.0\",\"id\":7,\"method\":\"ping\"}'' =
             Some [(''jsonrpc'', FJsonValueString ''2.0''), (''id'', FJsonValueNumber 7),
                   (''method'', FJsonValueString ''ping'')]"
    by code_simp
  have c2: "TryGetStringField RefJson
              [(''jsonrpc'', FJsonValueString ''2.0''), (''id'', FJsonValueNumber 7),
               (''method'', FJsonValueString ''ping'')] ''method'' = Some ''ping''"
    by code_simp
  have c3: "TryGetNumberField RefJson
              [(''jsonrpc'', FJsonValueString ''2.0''), (''id'', FJsonValueNumber 7),
               (''method'', FJsonValueString ''ping'')] ''id'' = Some 7"
    by code_simp
  have c4: "\<not> FStringEq ''ping'' ''initialize'' \<and> \<not> FStringEq ''ping'' ''tools/list''
         \<and> \<not> FStringEq ''ping'' ''tools/call''
         \<and> \<not> FStringEq ''ping'' ''notifications/initialized''"
    by code_simp
  have 1: "ProcessMessage RefJson SampleEditor ''{\"jsonrpc\":'' () =
     Inr (Envelope (CreateErrorResponse 0 (- 32700) ''Parse error''), ())"
    using C6_fault_classification_up_to_case
            [of RefJson "''{\"jsonrpc\":''" SampleEditor "()", THEN conjunct1, THEN mp, OF a] .
  have 2: "ProcessMessage RefJson SampleEditor ''{\"jsonrpc\":\"2.0\",\"id\":7}'' () =
     Inr (Envelope (CreateErrorResponse 0 (- 32600) ''Invalid Request''), ())"
    using C6_fault_classification_up_to_case
            [of RefJson "''{\"jsonrpc\":\"2.0\",\"id\":7}''" SampleEditor "()",
             THEN conjunct2, THEN conjunct1, THEN spec, THEN mp, OF conjI [OF b b2]] .
  have "ProcessMessage RefJson SampleEditor
          ''{\"jsonrpc\":\"2.0\",\"id\":7,\"method\":\"ping\"}'' () =
        Inr (Envelope (CreateErrorResponse
               (case TryGetNumberField RefJson
                       [(''jsonrpc'', FJsonValueString ''2.0''), (''id'', FJsonValueNumber 7),
                        (''method'', FJsonValueString ''ping'')] ''id''
                of None \<Rightarrow> 0 | Some n \<Rightarrow> n)
               (- 32601) ''Method not found''), ())"
    using C6_fault_classification_up_to_case
         [of RefJson "''{\"jsonrpc\":\"2.0\",\"id\":7,\"method\":\"ping\"}''" SampleEditor "()",
          THEN conjunct2, THEN conjunct2, THEN conjunct1, THEN spec, THEN spec, THEN mp,
          OF conjI [OF c conjI [OF c2 c4]]] .
  with c3 have 3: "ProcessMessage RefJson SampleEditor
          ''{\"jsonrpc\":\"2.0\",\"id\":7,\"method\":\"ping\"}'' () =
        Inr (Envelope (CreateErrorResponse 7 (- 32601) ''Method not found''), ())"
    by simp
  from 1 2 3 show ?thesis by (intro conjI)
qed

subsection \<open>C7: which messages go unanswered\<close>

text \<open>
  C7, as the claim states it, fails: a message without an id whose method is
  \<^verbatim>\<open>tools/list\<close> is answered, with id \<open>0\<close>.
\<close>

theorem C7_counterexample:
  "TryGetNumberField RefJson
     [(''jsonrpc'', FJsonValueString ''2.0''), (''method'', FJsonValueString ''tools/list'')]
     ''id'' = None
   \<and> ProcessMessage RefJson SampleEditor ''{\"jsonrpc\":\"2.0\",\"method\":\"tools/list\"}'' () =
       Inr (Envelope (HandleToolsList 0), ())
   \<and> response_id (HandleToolsList 0) = Some 0"
  by code_simp

text \<open>
  C7, amended. \<^verbatim>\<open>ProcessMessage\<close> returns the empty string, so that nothing is sent,
  exactly when the frame deserializes and its method is \<^verbatim>\<open>notifications/initialized\<close>
  (in any letter case), whether or not an id is present; the editor state is then
  unchanged. A message without an id whose method is anything else is treated as a request:
  it gets one envelope, with id \<open>0\<close>; for \<^verbatim>\<open>tools/call\<close> the envelope is produced when
  the game thread runs the task and the executor body returns, and otherwise the task
  never completes.
\<close>

theorem C7_unanswered_iff_initialized_notification:
  "((ProcessMessage L E Message h = Inr (Nothing, h')) =
      (h' = h \<and> (\<exists>Obj Method. Deserialize L Message = Some Obj
                    \<and> TryGetStringField L Obj ''method'' = Some Method
                    \<and> FStringEq Method ''notifications/initialized'')))
   \<and> (\<forall>Obj Method. Deserialize L Message = Some Obj
         \<and> TryGetStringField L Obj ''method'' = Some Method
         \<and> TryGetNumberField L Obj ''id'' = None
         \<and> \<not> FStringEq Method ''notifications/initialized''
         \<and> \<not> FStringEq Method ''tools/call'' \<longrightarrow>
       (\<exists>r. ProcessMessage L E Message h = Inr (Envelope r, h)
           \<and> response_id r = Some 0))
   \<and> (\<forall>Obj Method. Deserialize L Message = Some Obj
         \<and> TryGetStringField L Obj ''method'' = Some Method
         \<and> TryGetNumberField L Obj ''id'' = None
         \<and> FStringEq Method ''tools/call'' \<longrightarrow>
       (ProcessMessage L E Message h = Inl NoCompletion
        \<or> (\<exists>r h''. ProcessMessage L E Message h = Inr (Envelope r, h'')
               \<and> response_id r = Some 0))
       \<and> (RunsTask E h \<and> (\<forall>n Args. Body E n Args h \<noteq> None) \<longrightarrow>
            (\<exists>r h''. ProcessMessage L E Message h = Inr (Envelope r, h'')
                \<and> response_id r = Some 0)))"
proof -
  have c1: "(ProcessMessage L E Message h = Inr (Nothing, h')) =
      (h' = h \<and> (\<exists>Obj Method. Deserialize L Message = Some Obj
                    \<and> TryGetStringField L Obj ''method'' = Some Method
                    \<and> FStringEq Method ''notifications/initialized''))"
  proof
    assume silent: "ProcessMessage L E Message h = Inr (Nothing, h')"
    then obtain Obj where d: "Deserialize L Message = Some Obj"
      by (cases "Deserialize L Message") (simp_all add: ProcessMessage_def)
    from silent d obtain Method where m: "TryGetStringField L Obj ''method'' = Some Method"
      by (cases "TryGetStringField L Obj ''method''") (simp_all add: ProcessMessage_def)
    from silent d m have n: "FStringEq Method ''notifications/initialized''"
      by (auto simp: ProcessMessage_def Let_def HandleToolsCall_not_silent split: if_splits)
    from ProcessMessage_initialized [OF d m n, of E h] silent have "h' = h"
      by simp
    with d m n show "h' = h \<and> (\<exists>Obj Method. Deserialize L Message = Some Obj
                    \<and> TryGetStringField L Obj ''method'' = Some Method
                    \<and> FStringEq Method ''notifications/initialized'')"
      by blast
  next
    assume "h' = h \<and> (\<exists>Obj Method. Deserialize L Message = Some Obj
                    \<and> TryGetStringField L Obj ''method'' = Some Method
                    \<and> FStringEq Method ''notifications/initialized'')"
    then obtain Obj Method where "h' = h" and d: "Deserialize L Message = Some Obj"
      and m: "TryGetStringField L Obj ''method'' = Some Method"
      and n: "FStringEq Method ''notifications/initialized''"
      by blast
    with ProcessMessage_initialized [OF d m n, of E h]
    show "ProcessMessage L E Message h = Inr (Nothing, h')"
      by simp
  qed
  have c2: "\<forall>Obj Method. Deserialize L Message = Some Obj
         \<and> TryGetStringField L Obj ''method'' = Some Method
         \<and> TryGetNumberField L Obj ''id'' = None
         \<and> \<not> FStringEq Method ''notifications/initialized''
         \<and> \<not> FStringEq Method ''tools/call'' \<longrightarrow>
       (\<exists>r. ProcessMessage L E Message h = Inr (Envelope r, h)
           \<and> response_id r = Some 0)"
  proof (intro allI impI)
    fix Obj Method
    assume a: "Deserialize L Message = Some Obj
         \<and> TryGetStringField L Obj ''method'' = Some Method
         \<and> TryGetNumberField L Obj ''id'' = None
         \<and> \<not> FStringEq Method ''notifications/initialized''
         \<and> \<not> FStringEq Method ''tools/call''"
    then have d: "Deserialize L Message = Some Obj"
      and m: "TryGetStringField L Obj ''method'' = Some Method"
      and i: "TryGetNumberField L Obj ''id'' = None"
      and n: "\<not> FStringEq Method ''notifications/initialized''"
      and c: "\<not> FStringEq Method ''tools/call''"
      by simp_all
    show "\<exists>r. ProcessMessage L E Message h = Inr (Envelope r, h) \<and> response_id r = Some 0"
    proof (cases "FStringEq Method ''initialize''")
      case True
      from ProcessMessage_initialize [OF d m True, of E h] i show ?thesis
        by (simp add: HandleInitialize_def)
    next
      case False
      show ?thesis
      proof (cases "FStringEq Method ''tools/list''")
        case True
        from ProcessMessage_tools_list [OF d m True, of E h] i show ?thesis
          by (simp add: HandleToolsList_def)
      next
        case no_list: False
        from ProcessMessage_not_found [OF d m False no_list c n, of E h] i show ?thesis
          by simp
      qed
    qed
  qed
  have c3: "\<forall>Obj Method. Deserialize L Message = Some Obj
         \<and> TryGetStringField L Obj ''method'' = Some Method
         \<and> TryGetNumberField L Obj ''id'' = None
         \<and> FStringEq Method ''tools/call'' \<longrightarrow>
       (ProcessMessage L E Message h = Inl NoCompletion
        \<or> (\<exists>r h''. ProcessMessage L E Message h = Inr (Envelope r, h'')
               \<and> response_id r = Some 0))
       \<and> (RunsTask E h \<and> (\<forall>n Args. Body E n Args h \<noteq> None) \<longrightarrow>
            (\<exists>r h''. ProcessMessage L E Message h = Inr (Envelope r, h'')
                \<and> response_id r = Some 0))"
  proof (intro allI impI)
    fix Obj Method
    assume a: "Deserialize L Message = Some Obj
         \<and> TryGetStringField L Obj ''method'' = Some Method
         \<and> TryGetNumberField L Obj ''id'' = None
         \<and> FStringEq Method ''tools/call''"
    then have d: "Deserialize L Message = Some Obj"
      and m: "TryGetStringField L Obj ''method'' = Some Method"
      and i: "TryGetNumberField L Obj ''id'' = None"
      and c: "FStringEq Method ''tools/call''"
      by simp_all
    have call: "ProcessMessage L E Message h =
                  HandleToolsCall L E 0 (Some (GetObjectField L Obj ''params'')) h"
      using ProcessMessage_tools_call [OF d m c, of E h] i by simp
    have either: "ProcessMessage L E Message h = Inl NoCompletion
        \<or> (\<exists>r h''. ProcessMessage L E Message h = Inr (Envelope r, h'')
               \<and> response_id r = Some 0)"
      using HandleToolsCall_outcome [of L E 0 "GetObjectField L Obj ''params''" h]
      unfolding call by auto
    have completes: "\<exists>r h''. ProcessMessage L E Message h = Inr (Envelope r, h'')
                \<and> response_id r = Some 0"
      if "RunsTask E h \<and> (\<forall>n Args. Body E n Args h \<noteq> None)"
      using HandleToolsCall_completes [of E h L 0 "GetObjectField L Obj ''params''"] that
      unfolding call by auto
    from either completes
    show "(ProcessMessage L E Message h = Inl NoCompletion
        \<or> (\<exists>r h''. ProcessMessage L E Message h = Inr (Envelope r, h'')
               \<and> response_id r = Some 0))
       \<and> (RunsTask E h \<and> (\<forall>n Args. Body E n Args h \<noteq> None) \<longrightarrow>
            (\<exists>r h''. ProcessMessage L E Message h = Inr (Envelope r, h'')
                \<and> response_id r = Some 0))"
      by blast
  qed
  from c1 c2 c3 show ?thesis
    by (intro conjI)
qed

theorem C7_unanswered_iff_initialized_notification_witness:
  "ProcessMessage RefJson SampleEditor
     ''{\"jsonrpc\":\"2.0\",\"method\":\"notifications/initialized\"}'' () = Inr (Nothing, ())"
proof -
  have d: "Deserialize RefJson ''{\"jsonrpc\":\"2.0\",\"method\":\"notifications/initialized\"}'' =
     Some [(''jsonrpc'', FJsonValueString ''2.0''),
           (''method'', FJsonValueString ''notifications/initialized'')]"
    by code_simp
  have m: "TryGetStringField RefJson
     [(''jsonrpc'', FJsonValueString ''2.0''),
      (''method'', FJsonValueString ''notifications/initialized'')]
     ''method'' = Some ''notifications/initialized''"
    by code_simp
  have e: "FStringEq ''notifications/initialized'' ''notifications/initialized''"
    by simp
  have "() = () \<and> (\<exists>Obj Method. Deserialize RefJson
            ''{\"jsonrpc\":\"2.0\",\"method\":\"notifications/initialized\"}'' = Some Obj
          \<and> TryGetStringField RefJson Obj ''method'' = Some Method
          \<and> FStringEq Method ''notifications/initialized'')"
    using d m e by (intro conjI exI refl)
  then show ?thesis
    by (rule C7_unanswered_iff_initialized_notification [THEN conjunct1, THEN iffD2])
qed

subsection \<open>C8: tools/list against the dispatch chain\<close>

lemma entry_name_ToolEntry: "entry_name (ToolEntry n) = Some n"
  by (simp add: ToolEntry_def)

lemma listed_names_HandleToolsList:
  "listed_names (HandleToolsList ReqId) = map Some RegisteredTools"
  by (simp add: listed_names_def HandleToolsList_def CreateSuccessResponse_def
                entry_name_ToolEntry)

lemma ToolChain_names: "map fst ToolChain = RegisteredTools"
  by code_simp

lemma RegisteredTools_lower_case: "map (map ToLower) RegisteredTools = RegisteredTools"
  by code_simp

lemma RegisteredTools_distinct: "distinct RegisteredTools"
  by code_simp

lemma RegisteredTools_distinct_up_to_case: "distinct (map (map ToLower) RegisteredTools)"
  by (simp only: RegisteredTools_lower_case RegisteredTools_distinct)

lemma ToolChain_distinct_up_to_case:
  "distinct (map (\<lambda>branch. map ToLower (fst branch)) ToolChain)"
proof -
  have "map (\<lambda>branch. map ToLower (fst branch)) ToolChain = map (map ToLower) (map fst ToolChain)"
    by simp
  then show ?thesis
    by (simp only: ToolChain_names RegisteredTools_distinct_up_to_case)
qed

lemma find_branch_None:
  "(find (\<lambda>branch. FStringEq n (fst branch)) xs = None) =
     (\<forall>m \<in> set (map fst xs). \<not> FStringEq n m)"
  by (induction xs) auto

lemma find_branch_Some:
  "find (\<lambda>branch. FStringEq n (fst branch)) xs = Some (m, k) \<Longrightarrow>
     (m, k) \<in> set xs \<and> FStringEq n m"
  by (induction xs) (auto split: if_splits)

lemma find_own_branch:
  "distinct (map (\<lambda>branch. map ToLower (fst branch)) xs) \<Longrightarrow> (m, k) \<in> set xs \<Longrightarrow>
     find (\<lambda>branch. FStringEq m (fst branch)) xs = Some (m, k)"
proof (induction xs)
  case Nil
  then show ?case by simp
next
  case (Cons x xs)
  show ?case
  proof (cases "x = (m, k)")
    case True
    then show ?thesis by simp
  next
    case False
    with Cons.prems have mem: "(m, k) \<in> set xs"
      by simp
    then have "map ToLower m \<in> (\<lambda>branch. map ToLower (fst branch)) ` set xs"
      by force
    moreover from Cons.prems(1)
    have "map ToLower (fst x) \<notin> (\<lambda>branch. map ToLower (fst branch)) ` set xs"
      by simp
    ultimately have "map ToLower (fst x) \<noteq> map ToLower m"
      by metis
    then have "\<not> FStringEq m (fst x)"
      by (auto simp: FStringEq_def)
    with Cons.IH mem Cons.prems(1) show ?thesis
      by simp
  qed
qed

lemma GameThreadTask_listed:
  "(m, k) \<in> set ToolChain \<Longrightarrow>
     GameThreadTask L E m Args h = Execute L E k m Args h"
  using find_own_branch [OF ToolChain_distinct_up_to_case, of m k]
  by (simp add: GameThreadTask_def)

lemma GameThreadTask_match:
  assumes "m \<in> set RegisteredTools" and "FStringEq n m"
  shows "\<exists>m k. (m, k) \<in> set ToolChain \<and> FStringEq n m
            \<and> GameThreadTask L E n Args h = Execute L E k m Args h"
proof (cases "find (\<lambda>branch. FStringEq n (fst branch)) ToolChain")
  case None
  then have "\<forall>m \<in> set RegisteredTools. \<not> FStringEq n m"
    by (simp only: find_branch_None ToolChain_names)
  with assms show ?thesis
    by blast
next
  case (Some mk)
  obtain m' k' where mk: "mk = (m', k')" by (cases mk)
  from Some mk find_branch_Some [of n ToolChain m' k']
  have "(m', k') \<in> set ToolChain \<and> FStringEq n m'" by simp
  moreover from Some mk
  have "GameThreadTask L E n Args h = Execute L E k' m' Args h"
    by (simp add: GameThreadTask_def)
  ultimately show ?thesis by blast
qed

lemma GameThreadTask_no_match:
  assumes "\<forall>m \<in> set RegisteredTools. \<not> FStringEq n m"
  shows "GameThreadTask L E n Args h = Inr (''Unknown tool: '' @ n, h)"
proof -
  from assms have "find (\<lambda>branch. FStringEq n (fst branch)) ToolChain = None"
    by (simp only: find_branch_None ToolChain_names)
  then show ?thesis
    by (simp add: GameThreadTask_def)
qed

text \<open>
  C8, as the claim states it, fails: the chain of \<^verbatim>\<open>tools/call\<close> compares the name with
  \<^verbatim>\<open>FString::operator==\<close>, which ignores letter case, so \<^verbatim>\<open>START_PIE\<close> is dispatched
  (it runs \<^verbatim>\<open>ExecuteStartPIE\<close>) although \<^verbatim>\<open>tools/list\<close> does not enumerate it. A name
  that no branch matches is answered with \<^verbatim>\<open>Unknown tool: \<close>.
\<close>

theorem C8_counterexample:
  "''START_PIE'' \<notin> set RegisteredTools
   \<and> Some ''START_PIE'' \<notin> set (listed_names (HandleToolsList 4))
   \<and> GameThreadTask RefJson SampleEditor ''START_PIE'' (Some []) () =
       Inr (''Started Play In Editor (viewport mode)'', ())
   \<and> ProcessMessage RefJson SampleEditor
       ''{\"jsonrpc\":\"2.0\",\"id\":4,\"method\":\"tools/call\",\"params\":{\"name\":\"START_PIE\"}}''
       () =
     Inr (Envelope (CreateSuccessResponse 4
            (TextContent ''Started Play In Editor (viewport mode)'')), ())
   \<and> GameThreadTask RefJson SampleEditor ''no_such_tool'' (Some []) () =
       Inr (''Unknown tool: no_such_tool'', ())"
  by code_simp

text \<open>
  C8, amended. Whatever the id and whenever it is called, \<^verbatim>\<open>tools/list\<close> enumerates the
  same 101 names in the same order, the names of the branches of the chain of
  \<^verbatim>\<open>tools/call\<close>; no two of them are equal, even up to letter case. Every enumerated
  name is dispatched to the executor of its own branch. The names dispatched are the
  enumerated names up to letter case: a name that differs from an enumerated name in
  letter case only is dispatched to an executor of the chain, and a name that matches no
  enumerated name even up to letter case is answered with \<^verbatim>\<open>Unknown tool: \<close> and the
  name.
\<close>

theorem C8_tools_list_matches_dispatch_up_to_case:
  "listed_names (HandleToolsList ReqId) = map Some RegisteredTools
   \<and> RegisteredTools = map fst ToolChain
   \<and> length RegisteredTools = 101
   \<and> distinct RegisteredTools
   \<and> distinct (map (map ToLower) RegisteredTools)
   \<and> (\<forall>m k Args h. (m, k) \<in> set ToolChain \<longrightarrow>
        GameThreadTask L E m Args h = Execute L E k m Args h)
   \<and> (\<forall>n Args h. (\<exists>m. Some m \<in> set (listed_names (HandleToolsList ReqId)) \<and> FStringEq n m) \<longrightarrow>
        (\<exists>m k. (m, k) \<in> set ToolChain \<and> FStringEq n m
            \<and> GameThreadTask L E n Args h = Execute L E k m Args h))
   \<and> (\<forall>n Args h. \<not> (\<exists>m. Some m \<in> set (listed_names (HandleToolsList ReqId)) \<and> FStringEq n m) \<longrightarrow>
        GameThreadTask L E n Args h = Inr (''Unknown tool: '' @ n, h))"
proof -
  have c1: "listed_names (HandleToolsList ReqId) = map Some RegisteredTools"
    by (rule listed_names_HandleToolsList)
  have c2: "RegisteredTools = map fst ToolChain"
    by (rule ToolChain_names [symmetric])
  have c3: "length RegisteredTools = 101"
    by code_simp
  have listed: "(Some m \<in> set (listed_names (HandleToolsList ReqId))) = (m \<in> set RegisteredTools)"
    for m
    by (auto simp: listed_names_HandleToolsList)
  have c6: "\<forall>m k Args h. (m, k) \<in> set ToolChain \<longrightarrow>
        GameThreadTask L E m Args h = Execute L E k m Args h"
    by (simp add: GameThreadTask_listed)
  have c7: "\<forall>n Args h. (\<exists>m. Some m \<in> set (listed_names (HandleToolsList ReqId)) \<and> FStringEq n m) \<longrightarrow>
        (\<exists>m k. (m, k) \<in> set ToolChain \<and> FStringEq n m
            \<and> GameThreadTask L E n Args h = Execute L E k m Args h)"
    unfolding listed using GameThreadTask_match [of _ _ L E] by blast
  have c8: "\<forall>n Args h. \<not> (\<exists>m. Some m \<in> set (listed_names (HandleToolsList ReqId)) \<and> FStringEq n m) \<longrightarrow>
        GameThreadTask L E n Args h = Inr (''Unknown tool: '' @ n, h)"
    unfolding listed using GameThreadTask_no_match [of _ L E] by blast
  from c1 c2 c3 RegisteredTools_distinct RegisteredTools_distinct_up_to_case c6 c7 c8
  show ?thesis
    by (intro conjI)
qed

theorem C8_tools_list_matches_dispatch_up_to_case_witness:
  "(''start_pie'', StartPIE) \<in> set ToolChain
   \<and> GameThreadTask RefJson SampleEditor ''start_pie'' None () =
       Execute RefJson SampleEditor StartPIE ''start_pie'' None ()"
proof -
  have a: "(''start_pie'', StartPIE) \<in> set ToolChain"
    by code_simp
  have b: "GameThreadTask RefJson SampleEditor ''start_pie'' None () =
       Execute RefJson SampleEditor StartPIE ''start_pie'' None ()"
    using C8_tools_list_matches_dispatch_up_to_case
            [of 0 RefJson SampleEditor, THEN conjunct2, THEN conjunct2, THEN conjunct2,
             THEN conjunct2, THEN conjunct2, THEN conjunct1,
             THEN spec, THEN spec, THEN spec, THEN spec, THEN mp, OF a] .
  from a b show ?thesis
    by (intro conjI)
qed

subsection \<open>C9: one client connection\<close>

lemma AcceptConnection_one_live:
  "at_most_one_live s \<Longrightarrow> at_most_one_live (AcceptConnection p s)"
  by (auto simp: at_most_one_live_def AcceptConnection_def split: option.splits)

lemma SendResponses_one_live:
  assumes "at_most_one_live s" and "SendResponses L E c Msgs s = Inr s'"
  shows "at_most_one_live s'"
  using assms(1) SendResponses_keeps_connection [OF assms(2)]
  by (simp add: at_most_one_live_def)

lemma ServeClient_one_live:
  assumes inv: "at_most_one_live s" and step: "ServeClient L E p s = Inr s'"
  shows "at_most_one_live s'"
proof (cases "ClientSocket s")
  case None
  with inv step show ?thesis
    by (simp add: ServeClient_def)
next
  case (Some c)
  show ?thesis
  proof (cases "HasPendingData p")
    case True
    show ?thesis
    proof (cases "RecvResult p")
      case None
      with inv step Some True show ?thesis
        by (simp add: ServeClient_def)
    next
      case (Some Buffer)
      with step \<open>ClientSocket s = Some c\<close> True
      have "SendResponses L E c (ParseIntoArray (ReceivedText Buffer (MemoryAfter p))) s = Inr s'"
        by (simp add: ServeClient_def)
      with inv show ?thesis
        by (rule SendResponses_one_live)
    qed
  next
    case False
    with inv step Some show ?thesis
      by (auto simp: ServeClient_def at_most_one_live_def split: if_splits)
  qed
qed

lemma RunIteration_one_live:
  "at_most_one_live s \<Longrightarrow> RunIteration L E p s = Inr s' \<Longrightarrow> at_most_one_live s'"
  unfolding RunIteration_def
  by (rule ServeClient_one_live [OF AcceptConnection_one_live])

lemma Run_one_live:
  "at_most_one_live s \<Longrightarrow> Run L E ps s = Inr s' \<Longrightarrow> at_most_one_live s'"
proof (induction ps arbitrary: s)
  case Nil
  then show ?case by simp
next
  case (Cons p ps)
  from Cons.prems(2) obtain s1 where
    step: "RunIteration L E p s = Inr s1" and rest: "Run L E ps s1 = Inr s'"
    by (auto split: sum.splits)
  from RunIteration_one_live [OF Cons.prems(1) step] rest show ?case
    by (rule Cons.IH)
qed

lemma InitialServer_one_live: "at_most_one_live (InitialServer h)"
  by (simp add: at_most_one_live_def InitialServer_def)

text \<open>
  C9. The server holds one client socket. A server that starts with none has, after any
  number of loop iterations, at most one live client connection, and that one is
  \<^verbatim>\<open>ClientSocket\<close>; every iteration preserves this. When a connection is accepted while a
  client is connected, the old socket is closed and destroyed before the new one is stored,
  with no other condition.
\<close>

theorem C9_at_most_one_live_connection:
  "at_most_one_live (InitialServer h0)
   \<and> (\<forall>s s'. at_most_one_live s \<and> RunIteration L E p s = Inr s' \<longrightarrow> at_most_one_live s')
   \<and> (\<forall>ps s'. Run L E ps (InitialServer h0) = Inr s' \<longrightarrow> at_most_one_live s')
   \<and> (\<forall>s n old. HasPendingConnection p \<and> AcceptResult p = Some n \<and> ClientSocket s = Some old \<longrightarrow>
         ClientSocket (AcceptConnection p s) = Some n
         \<and> Live (AcceptConnection p s) = insert n (Live s) - {old}
         \<and> Calls (AcceptConnection p s) = Calls s @ [Accept n, Close old, DestroySocket old])"
proof -
  have c1: "at_most_one_live (InitialServer h0)"
    by (rule InitialServer_one_live)
  have c2: "\<forall>s s'. at_most_one_live s \<and> RunIteration L E p s = Inr s' \<longrightarrow> at_most_one_live s'"
    by (auto intro: RunIteration_one_live)
  have c3: "\<forall>ps s'. Run L E ps (InitialServer h0) = Inr s' \<longrightarrow> at_most_one_live s'"
    by (auto intro: Run_one_live [OF InitialServer_one_live])
  have c4: "\<forall>s n old. HasPendingConnection p \<and> AcceptResult p = Some n \<and> ClientSocket s = Some old \<longrightarrow>
         ClientSocket (AcceptConnection p s) = Some n
         \<and> Live (AcceptConnection p s) = insert n (Live s) - {old}
         \<and> Calls (AcceptConnection p s) = Calls s @ [Accept n, Close old, DestroySocket old]"
    by (simp add: AcceptConnection_def)
  from c1 c2 c3 c4 show ?thesis
    by (intro conjI)
qed

theorem C9_at_most_one_live_connection_witness:
  "Run RefJson SampleEditor [ConnectPoll 1, ConnectPoll 2] (InitialServer ()) =
     Inr \<lparr> ClientSocket = Some 2, Live = {2}, EditorState = (),
           Calls = [Accept 1, Accept 2, Close 1, DestroySocket 1] \<rparr>
   \<and> at_most_one_live \<lparr> ClientSocket = Some 2, Live = {2}, EditorState = (),
           Calls = [Accept 1, Accept 2, Close 1, DestroySocket 1] \<rparr>"
proof -
  have r: "Run RefJson SampleEditor [ConnectPoll 1, ConnectPoll 2] (InitialServer ()) =
     Inr \<lparr> ClientSocket = Some 2, Live = {2}, EditorState = (),
           Calls = [Accept 1, Accept 2, Close 1, DestroySocket 1] \<rparr>"
    by (simp add: RunIteration_def AcceptConnection_def ServeClient_def ConnectPoll_def
                  InitialServer_def insert_Diff_if)
  have "at_most_one_live \<lparr> ClientSocket = Some 2, Live = {2}, EditorState = (),
           Calls = [Accept 1, Accept 2, Close 1, DestroySocket 1] \<rparr>"
    using C9_at_most_one_live_connection
            [of "()" RefJson SampleEditor "ConnectPoll 1",
             THEN conjunct2, THEN conjunct2, THEN conjunct1, THEN spec, THEN spec, THEN mp,
             OF r] .
  with r show ?thesis by (intro conjI)
qed

subsection \<open>C10: the arguments pointer of a tools/call\<close>

lemma unguarded_executors:
  "map fst (filter (\<lambda>e. snd e = Unguarded) ToolChain) =
       [''set_simulate_physics'', ''set_collision_enabled'', ''set_collision_profile'',
        ''add_impulse'', ''get_physics_state'', ''get_editor_preference'',
        ''set_editor_preference'', ''run_editor_utility'', ''set_viewport_bookmark'',
        ''jump_to_bookmark'', ''clear_bookmark'', ''get_actor_components'',
        ''get_component_properties'', ''set_component_transform'',
        ''set_component_visibility'', ''remove_component'', ''play_animation'',
        ''stop_animation'', ''get_animation_list'', ''create_level_sequence'',
        ''add_actor_to_sequence'', ''play_sequence'', ''set_sequence_time'',
        ''play_sound_at_location'', ''spawn_audio_component'', ''set_audio_volume'',
        ''get_audio_components'', ''set_audio_attenuation'', ''get_landscape_height'',
        ''add_foliage_instance'', ''remove_foliage_in_radius'', ''get_foliage_count'']"
  by code_simp

lemma guarded_executors:
  "map fst (filter (\<lambda>e. snd e = Guarded) ToolChain) =
       [''spawn_actor'', ''delete_actor'', ''get_actor_properties'',
        ''set_actor_property'', ''find_actors_by_class'', ''find_actors_by_tag'',
        ''find_actors_by_name'', ''duplicate_actor'', ''set_actor_visibility'',
        ''snap_actor_to_ground'', ''rename_actor'', ''add_actor_tag'',
        ''remove_actor_tag'', ''get_actor_tags'', ''set_actor_mobility'',
        ''get_actor_mobility'', ''attach_actor_to_actor'', ''detach_actor'',
        ''select_actors'', ''focus_on_actor'', ''set_viewport_camera'', ''set_view_mode'',
        ''pilot_actor'', ''set_viewport_realtime'', ''set_viewport_stats'', ''load_level'',
        ''search_assets'', ''get_asset_info'', ''load_asset'', ''duplicate_asset'',
        ''rename_asset'', ''delete_asset'', ''create_folder'', ''get_asset_references'',
        ''create_blueprint'', ''get_blueprint_info'', ''compile_blueprint'',
        ''spawn_blueprint_actor'', ''add_blueprint_variable'',
        ''remove_blueprint_variable'', ''get_blueprint_variables'',
        ''get_blueprint_functions'', ''set_blueprint_variable_default'',
        ''create_material_instance'', ''set_material_scalar'', ''apply_material_to_actor'',
        ''set_material_vector'', ''get_material_parameters'', ''replace_actor_material'',
        ''get_actor_materials'', ''execute_console_command'']"
  by code_simp

text \<open>
  C10, as the claim states it, fails: in a \<^verbatim>\<open>tools/call\<close> without an \<^verbatim>\<open>arguments\<close>
  object the pointer handed to the executor is valid (it is the library's empty object), so
  the test \<^verbatim>\<open>!Args.IsValid()\<close> does not fire. \<^verbatim>\<open>spawn_actor\<close>, whose executor begins
  with the test, answers from its body (\<^verbatim>\<open>Error: No world available\<close> when no world is
  loaded), and \<^verbatim>\<open>start_pie\<close> starts the session in the default mode; neither answers
  \<^verbatim>\<open>Error: Invalid arguments\<close>.
\<close>

theorem C10_counterexample:
  "''spawn_actor'' \<in> set RegisteredTools
   \<and> find (\<lambda>branch. FStringEq ''spawn_actor'' (fst branch)) ToolChain
       = Some (''spawn_actor'', Guarded)
   \<and> HasField RefJson [(''name'', FJsonValueString ''spawn_actor'')] ''arguments'' = False
   \<and> ProcessMessage RefJson SampleEditor
       ''{\"jsonrpc\":\"2.0\",\"id\":9,\"method\":\"tools/call\",\"params\":{\"name\":\"spawn_actor\"}}''
       () =
     Inr (Envelope (CreateSuccessResponse 9 (TextContent ''Error: No world available'')), ())
   \<and> ''start_pie'' \<in> set RegisteredTools
   \<and> ProcessMessage RefJson SampleEditor
       ''{\"jsonrpc\":\"2.0\",\"id\":9,\"method\":\"tools/call\",\"params\":{\"name\":\"start_pie\"}}''
       () =
     Inr (Envelope (CreateSuccessResponse 9
            (TextContent ''Started Play In Editor (viewport mode)'')), ())"
  by code_simp

text \<open>
  C10, amended. In every \<^verbatim>\<open>tools/call\<close> the arguments pointer handed to the executor is
  valid: it is the object \<^verbatim>\<open>GetObjectField("arguments")\<close> returns, the library's empty
  object when \<^verbatim>\<open>params\<close> has none. So no executor, with or without the test,
  dereferences an invalid pointer, and the branch \<^verbatim>\<open>Error: Invalid arguments\<close> is not
  taken: when the game thread runs the task and the executor body returns, the reply is the
  success that carries the body's text. \<^verbatim>\<open>start_pie\<close> answers
  \<^verbatim>\<open>Started Play In Editor (viewport mode)\<close> when that object has no \<^verbatim>\<open>mode\<close>. The test
  itself, with which 51 executors begin, answers \<^verbatim>\<open>Error: Invalid arguments\<close> for an
  invalid pointer.
\<close>

theorem C10_arguments_pointer_is_valid:
  "HandleToolsCall L E ReqId (Some P) h \<noteq> Inl NullDereference
   \<and> (\<forall>f. HandleToolsCall L E ReqId (Some P) h = Inl f \<longrightarrow> f = NoCompletion)
   \<and> (\<forall>n k t h'. RunsTask E h
         \<and> find (\<lambda>branch. FStringEq (GetStringField L P ''name'') (fst branch)) ToolChain
             = Some (n, k)
         \<and> (k = Guarded \<or> k = Unguarded \<or> k = TakeScreenshot)
         \<and> Body E n (Some (GetObjectField L P ''arguments'')) h = Some (t, h') \<longrightarrow>
       HandleToolsCall L E ReqId (Some P) h =
         Inr (Envelope (CreateSuccessResponse ReqId (TextContent t)), h'))
   \<and> (\<forall>n t h'. RunsTask E h
         \<and> find (\<lambda>branch. FStringEq (GetStringField L P ''name'') (fst branch)) ToolChain
             = Some (n, StartPIE)
         \<and> \<not> HasField L (GetObjectField L P ''arguments'') ''mode''
         \<and> Body E n (Some (GetObjectField L P ''arguments'')) h = Some (t, h') \<longrightarrow>
       HandleToolsCall L E ReqId (Some P) h =
         Inr (Envelope (CreateSuccessResponse ReqId
                (TextContent ''Started Play In Editor (viewport mode)'')), h'))
   \<and> (\<forall>n. Execute L E Guarded n None h = Inr (''Error: Invalid arguments'', h))
   \<and> length (filter (\<lambda>e. snd e = Guarded) ToolChain) = 51
   \<and> length (filter (\<lambda>e. snd e = Unguarded) ToolChain) = 32"
proof -
  have c1: "HandleToolsCall L E ReqId (Some P) h \<noteq> Inl NullDereference"
    by (rule HandleToolsCall_valid_pointer)
  have c2: "\<forall>f. HandleToolsCall L E ReqId (Some P) h = Inl f \<longrightarrow> f = NoCompletion"
  proof (intro allI impI)
    fix f assume "HandleToolsCall L E ReqId (Some P) h = Inl f"
    with c1 show "f = NoCompletion" by (cases f) simp_all
  qed
  have c3: "\<forall>n k t h'. RunsTask E h
         \<and> find (\<lambda>branch. FStringEq (GetStringField L P ''name'') (fst branch)) ToolChain
             = Some (n, k)
         \<and> (k = Guarded \<or> k = Unguarded \<or> k = TakeScreenshot)
         \<and> Body E n (Some (GetObjectField L P ''arguments'')) h = Some (t, h') \<longrightarrow>
       HandleToolsCall L E ReqId (Some P) h =
         Inr (Envelope (CreateSuccessResponse ReqId (TextContent t)), h')"
    using HandleToolsCall_body_text [of E h L P _ _ _ _ ReqId] by blast
  have c4: "\<forall>n t h'. RunsTask E h
         \<and> find (\<lambda>branch. FStringEq (GetStringField L P ''name'') (fst branch)) ToolChain
             = Some (n, StartPIE)
         \<and> \<not> HasField L (GetObjectField L P ''arguments'') ''mode''
         \<and> Body E n (Some (GetObjectField L P ''arguments'')) h = Some (t, h') \<longrightarrow>
       HandleToolsCall L E ReqId (Some P) h =
         Inr (Envelope (CreateSuccessResponse ReqId
                (TextContent ''Started Play In Editor (viewport mode)'')), h')"
    by (auto simp: HandleToolsCall_valid_params GameThreadTask_def)
  have c5: "\<forall>n. Execute L E Guarded n None h = Inr (''Error: Invalid arguments'', h)"
    by simp
  have c6: "length (filter (\<lambda>e. snd e = Guarded) ToolChain) = 51"
    by code_simp
  have c7: "length (filter (\<lambda>e. snd e = Unguarded) ToolChain) = 32"
    by code_simp
  from c1 c2 c3 c4 c5 c6 c7 show ?thesis
    by (intro conjI)
qed

theorem C10_arguments_pointer_is_valid_witness:
  "HandleToolsCall RefJson SampleEditor 5
     (Some [(''name'', FJsonValueString ''spawn_actor'')]) () =
   Inr (Envelope (CreateSuccessResponse 5 (TextContent ''Error: No world available'')), ())"
proof -
  have a: "RunsTask SampleEditor ()
         \<and> find (\<lambda>branch. FStringEq
                   (GetStringField RefJson [(''name'', FJsonValueString ''spawn_actor'')] ''name'')
                   (fst branch)) ToolChain
             = Some (''spawn_actor'', Guarded)
         \<and> (Guarded = Guarded \<or> Guarded = Unguarded \<or> Guarded = TakeScreenshot)
         \<and> Body SampleEditor ''spawn_actor''
             (Some (GetObjectField RefJson [(''name'', FJsonValueString ''spawn_actor'')]
                      ''arguments'')) ()
             = Some (''Error: No world available'', ())"
    by code_simp
  show ?thesis
    using C10_arguments_pointer_is_valid
            [of RefJson SampleEditor 5 "[(''name'', FJsonValueString ''spawn_actor'')]" "()",
             THEN conjunct2, THEN conjunct2, THEN conjunct1,
             THEN spec, THEN spec, THEN spec, THEN spec, THEN mp, OF a] .
qed

end
